theory Spec2Isabelle
  imports
    Complex_Main
    "HOL-Library.Char_ord"
    "HOL-Library.List_Lexorder"
    "HOL-Library.Product_Lexorder"
begin

section \<open>Mutation tables of treeomics (plots.py)\<close>

text \<open>
  The development embeds the layout and encoding core of \<^verbatim>\<open>src/treeomics/plots/plots.py\<close>:
  the priority loops and the sorting of \<^verbatim>\<open>hinton\<close> and \<^verbatim>\<open>clustered_table\<close>, the
  per-cell colour chains, the two intensity expressions of
  \<^verbatim>\<open>create_incompatible_mp_table\<close> and \<^verbatim>\<open>_format_gene_name\<close>.

  Conventions. A cell value of the mutation matrix is a Python float and is modelled as a
  real number (rounding and NaN are not modelled). Python integers are \<^typ>\<open>int\<close>; list
  positions that the code only ever produces by \<^verbatim>\<open>enumerate\<close> or \<^verbatim>\<open>range\<close>, and the mutation
  and sample indices handed in by the callers, are \<^typ>\<open>nat\<close>. Every subscript of the
  source is a branch of the model: a position out of range is \<open>Inl IndexError\<close>.
  The two sentinels \<^verbatim>\<open>POS_UNKNOWN\<close> and \<^verbatim>\<open>NEG_UNKNOWN\<close> are imported by plots.py from
  \<^verbatim>\<open>utils.int_settings\<close>; their values are parameters of the model.
\<close>

subsection \<open>Errors, settings and subscripts\<close>

datatype py_error = IndexError | ZeroDivisionError | ValueError

record int_settings =
  POS_UNKNOWN :: real
  NEG_UNKNOWN :: real

definition py_index :: "'a list \<Rightarrow> nat \<Rightarrow> py_error + 'a" where
  "py_index xs i = (if i < length xs then Inr (xs ! i) else Inl IndexError)"

subsection \<open>Priorities (hinton, lines 62-73; clustered_table, lines 358-375)\<close>

text \<open>One pass of the body of the inner loop: the amount added to \<^verbatim>\<open>priorities[mut_idx]\<close>
  for the value \<open>maf\<close> met at loop position \<open>pos\<close> of a row of length \<open>n\<close>.\<close>

definition priority_term :: "int_settings \<Rightarrow> nat \<Rightarrow> nat \<Rightarrow> real \<Rightarrow> int" where
  "priority_term st n pos maf =
     (if maf > 0 then 3 * (4 ^ (n - pos - 1))
      else if maf = POS_UNKNOWN st then 1 * (4 ^ (n - pos - 1))
      else if maf = NEG_UNKNOWN st then 1 * (4 ^ (n - pos - 1))
      else 0 * (4 ^ (n - pos - 1)))"

text \<open>\<^verbatim>\<open>for sa_idx, maf in enumerate(data[mut_idx])\<close> of hinton, with the running value
  of \<^verbatim>\<open>priorities[mut_idx]\<close> as accumulator.\<close>

fun hinton_row_loop :: "int_settings \<Rightarrow> nat \<Rightarrow> (nat \<times> real) list \<Rightarrow> int \<Rightarrow> int" where
  "hinton_row_loop st n [] p = p"
| "hinton_row_loop st n ((sa_idx, maf) # rest) p =
     hinton_row_loop st n rest (p + priority_term st n sa_idx maf)"

text \<open>\<^verbatim>\<open>for mut_idx in displayed_mutations\<close> of hinton, threading the list
  \<^verbatim>\<open>priorities\<close>. Both \<^verbatim>\<open>data[mut_idx]\<close> and \<^verbatim>\<open>priorities[mut_idx]\<close> raise exactly when
  \<open>mut_idx\<close> is not a row of the matrix.\<close>

fun hinton_priorities_loop ::
  "int_settings \<Rightarrow> real list list \<Rightarrow> nat list \<Rightarrow> int list \<Rightarrow> py_error + int list" where
  "hinton_priorities_loop st data [] priorities = Inr priorities"
| "hinton_priorities_loop st data (mut_idx # rest) priorities =
     (case py_index data mut_idx of
        Inl e \<Rightarrow> Inl e
      | Inr row \<Rightarrow>
          hinton_priorities_loop st data rest
            (priorities[mut_idx :=
               hinton_row_loop st (length row) (enumerate 0 row) (priorities ! mut_idx)]))"

definition hinton_priorities ::
  "int_settings \<Rightarrow> real list list \<Rightarrow> nat list \<Rightarrow> py_error + int list" where
  "hinton_priorities st data displayed_mutations =
     hinton_priorities_loop st data displayed_mutations (replicate (length data) 0)"

text \<open>\<^verbatim>\<open>for i in range(len(patient.data[mut_idx]))\<close> of clustered_table: the value is read
  through \<^verbatim>\<open>leave_ordering[i]\<close>, and either subscript may raise.\<close>

fun clustered_row_loop ::
  "int_settings \<Rightarrow> real list \<Rightarrow> nat list \<Rightarrow> nat list \<Rightarrow> int \<Rightarrow> py_error + int" where
  "clustered_row_loop st row leave_ordering [] p = Inr p"
| "clustered_row_loop st row leave_ordering (i # rest) p =
     (case py_index leave_ordering i of
        Inl e \<Rightarrow> Inl e
      | Inr sa_idx \<Rightarrow>
          (case py_index row sa_idx of
             Inl e \<Rightarrow> Inl e
           | Inr maf \<Rightarrow>
               clustered_row_loop st row leave_ordering rest
                 (p + priority_term st (length row) i maf)))"

fun clustered_priorities_loop ::
  "int_settings \<Rightarrow> real list list \<Rightarrow> nat list \<Rightarrow> nat list \<Rightarrow> int list \<Rightarrow> py_error + int list"
  where
  "clustered_priorities_loop st data leave_ordering [] priorities = Inr priorities"
| "clustered_priorities_loop st data leave_ordering (mut_idx # rest) priorities =
     (case py_index data mut_idx of
        Inl e \<Rightarrow> Inl e
      | Inr row \<Rightarrow>
          (case clustered_row_loop st row leave_ordering [0..<length row] (priorities ! mut_idx) of
             Inl e \<Rightarrow> Inl e
           | Inr p \<Rightarrow>
               clustered_priorities_loop st data leave_ordering rest (priorities[mut_idx := p])))"

text \<open>\<^verbatim>\<open>leave_ordering = deepcopy(den['leaves']); leave_ordering.reverse()\<close>: the list
  \<open>leaves\<close> is what \<^verbatim>\<open>scipy.cluster.hierarchy.dendrogram\<close> returned (bottom leaf
  first for \<^verbatim>\<open>orientation='left'\<close>), so \<open>leave_ordering\<close> lists the samples from the top
  row down.\<close>

definition leave_ordering_of :: "nat list \<Rightarrow> nat list" where
  "leave_ordering_of leaves = rev leaves"

definition clustered_priorities ::
  "int_settings \<Rightarrow> real list list \<Rightarrow> nat list \<Rightarrow> nat list \<Rightarrow> py_error + int list" where
  "clustered_priorities st data leaves displayed_mutations =
     clustered_priorities_loop st data (leave_ordering_of leaves) displayed_mutations
       (replicate (length data) 0)"

subsection \<open>The priority as the specification words it\<close>

text \<open>The weight of a state: 3 for a present state (a value above 0), 1 for either
  ambiguous sentinel, 0 otherwise.\<close>

definition spec_weight :: "int_settings \<Rightarrow> real \<Rightarrow> int" where
  "spec_weight st v =
     (if v > 0 then 3 else if v = POS_UNKNOWN st \<or> v = NEG_UNKNOWN st then 1 else 0)"

text \<open>The sum over the sample positions \<open>i\<close>, counted in the effective sample order, of
  \<open>weight (state i) * 4 ^ (S - i - 1)\<close>.\<close>

definition spec_priority :: "int_settings \<Rightarrow> real list \<Rightarrow> nat list \<Rightarrow> int" where
  "spec_priority st v sample_order =
     (\<Sum>i\<leftarrow>[0..<length v]. spec_weight st (v ! (sample_order ! i)) * 4 ^ (length v - i - 1))"

text \<open>Without a dendrogram the effective order is the declared one.\<close>

definition declared_order :: "real list \<Rightarrow> nat list" where
  "declared_order v = [0..<length v]"

subsection \<open>Column order (hinton, lines 77-79; clustered_table, lines 378-379)\<close>

text \<open>Python's \<^verbatim>\<open>sorted\<close> is a stable sort by the key, and so is \<^const>\<open>sort_key\<close>. Tuples
  compare lexicographically, strings by their character codes. The key function reads
  \<^verbatim>\<open>priorities[k]\<close> and, when labels are given, \<^verbatim>\<open>column_labels[k]\<close>; without labels the
  second component of hinton's key is the constant \<^verbatim>\<open>0\<close>.\<close>

definition hinton_order ::
  "int list \<Rightarrow> string list option \<Rightarrow> nat list \<Rightarrow> py_error + nat list" where
  "hinton_order priorities column_labels displayed_mutations =
     (case column_labels of
        None \<Rightarrow>
          if list_all (\<lambda>k. k < length priorities) displayed_mutations
          then Inr (sort_key (\<lambda>k. (- (priorities ! k), 0 :: int)) displayed_mutations)
          else Inl IndexError
      | Some labels \<Rightarrow>
          if list_all (\<lambda>k. k < length priorities \<and> k < length labels) displayed_mutations
          then Inr (sort_key (\<lambda>k. (- (priorities ! k), labels ! k)) displayed_mutations)
          else Inl IndexError)"

definition clustered_order :: "int list \<Rightarrow> string list \<Rightarrow> nat list \<Rightarrow> py_error + nat list" where
  "clustered_order priorities gene_names displayed_mutations =
     (if list_all (\<lambda>k. k < length priorities \<and> k < length gene_names) displayed_mutations
      then Inr (sort_key (\<lambda>k. (- (priorities ! k), gene_names ! k)) displayed_mutations)
      else Inl IndexError)"

subsection \<open>Gene names (_format_gene_name, lines 634-653)\<close>

text \<open>\<^verbatim>\<open>s.replace(c, '')\<close> for a single character \<open>c\<close>.\<close>

definition py_remove :: "char \<Rightarrow> string \<Rightarrow> string" where
  "py_remove c s = filter (\<lambda>x. x \<noteq> c) s"

text \<open>\<^verbatim>\<open>s.replace(c, d)\<close> for single characters.\<close>

definition py_replace :: "char \<Rightarrow> char \<Rightarrow> string \<Rightarrow> string" where
  "py_replace c d s = map (\<lambda>x. if x = c then d else x) s"

text \<open>\<^verbatim>\<open>s.find(c, start)\<close>: the lowest position at or after \<open>start\<close> that holds \<open>c\<close>,
  or \<open>-1\<close>.\<close>

fun find_loop :: "char \<Rightarrow> nat \<Rightarrow> string \<Rightarrow> int" where
  "find_loop c i [] = - 1"
| "find_loop c i (x # xs) = (if x = c then int i else find_loop c (Suc i) xs)"

definition py_find :: "string \<Rightarrow> char \<Rightarrow> nat \<Rightarrow> int" where
  "py_find s c start = find_loop c start (drop start s)"

text \<open>\<^verbatim>\<open>s[:k]\<close>: a negative \<open>k\<close> counts from the end of the string.\<close>

definition py_slice_to :: "string \<Rightarrow> int \<Rightarrow> string" where
  "py_slice_to s k = (if k < 0 then take (nat (int (length s) + k)) s else take (nat k) s)"

definition format_gene_name :: "string \<Rightarrow> int \<Rightarrow> string" where
  "format_gene_name gene_name max_length =
     (let g1 = py_remove CHR '' '' gene_name;
          g2 = py_remove (CHR 0x22) g1;
          g3 = (if int (length g2) > max_length - 4 \<and> py_find g2 CHR '','' 6 \<noteq> - 1
                then py_slice_to g2 (py_find g2 CHR '','' 6)
                else g2)
      in if int (length g3) > max_length then py_slice_to g3 max_length else g3)"

subsection \<open>Cell colours and intensities\<close>

datatype colour = Named string | RGB real real real

text \<open>The colour chain of hinton (lines 82-91), repeated verbatim in clustered_table
  (lines 386-395).\<close>

definition cell_color :: "int_settings \<Rightarrow> real \<Rightarrow> colour" where
  "cell_color st maf =
     (if maf > 0 then Named ''blue''
      else if maf = POS_UNKNOWN st then RGB 0.9 0.75 0.75
      else if maf = NEG_UNKNOWN st then RGB 0.9 0.75 0.75
      else RGB 1.0 0.3 0.3)"

text \<open>create_incompatible_mp_table, lines 171-173 and 186-195.\<close>

definition present_color :: colour where "present_color = Named ''blue''"
definition absent_color :: colour where "absent_color = RGB 1.0 0.3 0.3"
definition unknown_color :: colour where "unknown_color = RGB 0.9 0.75 0.75"

definition class_color :: "int_settings \<Rightarrow> real \<Rightarrow> colour" where
  "class_color st maf =
     (if maf > 0 then present_color
      else if maf = POS_UNKNOWN st then unknown_color
      else if maf = NEG_UNKNOWN st then unknown_color
      else absent_color)"

text \<open>True division of two floats, and \<^verbatim>\<open>math.log(x, base)\<close>, with what they raise.\<close>

definition py_truediv :: "real \<Rightarrow> real \<Rightarrow> py_error + real" where
  "py_truediv a b = (if b = 0 then Inl ZeroDivisionError else Inr (a / b))"

definition math_log :: "real \<Rightarrow> real \<Rightarrow> py_error + real" where
  "math_log x b =
     (if x \<le> 0 \<or> b \<le> 0 then Inl ValueError
      else case py_truediv (ln x) (ln b) of Inl e \<Rightarrow> Inl e | Inr l \<Rightarrow> Inr l)"

text \<open>Lines 180-184: \<open>cov\<close> and \<open>mut_reads\<close> are the two table entries of the cell after
  \<^verbatim>\<open>float(...)\<close>.\<close>

definition raw_maf_of :: "real \<Rightarrow> real \<Rightarrow> py_error + real" where
  "raw_maf_of mut_reads cov = (if cov > 0 then py_truediv mut_reads cov else Inr 0.0)"

text \<open>Line 197: the argument of \<^verbatim>\<open>plt.cm.Blues\<close>.\<close>

definition maf_intensity :: "real \<Rightarrow> real" where
  "maf_intensity raw_maf = (if raw_maf < 0.5 then 2.0 * raw_maf else 1.0)"

text \<open>Line 198: the argument of \<^verbatim>\<open>plt.cm.Greens\<close>.\<close>

definition cov_intensity :: "real \<Rightarrow> py_error + real" where
  "cov_intensity cov =
     (if 0 < cov \<and> cov < 1000
      then (case math_log cov 10 of Inl e \<Rightarrow> Inl e | Inr l \<Rightarrow> Inr (l / 3))
      else if cov \<le> 0.0 then Inr 0.0 else Inr 1.0)"

record encoding =
  maf_value :: real
  cov_value :: real
  border :: colour

definition encode_cell :: "int_settings \<Rightarrow> real \<Rightarrow> real \<Rightarrow> real \<Rightarrow> py_error + encoding" where
  "encode_cell st maf mut_reads cov =
     (case raw_maf_of mut_reads cov of
        Inl e \<Rightarrow> Inl e
      | Inr raw_maf \<Rightarrow>
          (case cov_intensity cov of
             Inl e \<Rightarrow> Inl e
           | Inr c \<Rightarrow>
               Inr \<lparr>maf_value = maf_intensity raw_maf, cov_value = c,
                    border = class_color st maf\<rparr>))"

subsection \<open>Layout of hinton (lines 37-108)\<close>

text \<open>What the function hands to matplotlib: the figure size, the rectangles added with
  \<^verbatim>\<open>add_patch\<close> and the texts of the row-label and of the column-label loop, each in the
  order of the calls. Creating the figure is modelled with the error it raises for a
  negative size; file output and the axes set-up are not modelled.\<close>

record rectangle =
  xy :: "int \<times> int"
  rect_width :: int
  rect_height :: int
  facecolor :: colour
  edgecolor :: colour

record label_text =
  text_xy :: "real \<times> real"
  text_s :: string

record figure =
  figsize :: "real \<times> real"
  patches :: "rectangle list"
  row_texts :: "label_text list"
  column_texts :: "label_text list"

text \<open>\<^verbatim>\<open>plt.figure(figsize=(w, h), dpi=150)\<close> of lines 52, 160 and 339, as far as it can
  raise here: matplotlib refuses a figure size with a negative component with a
  ValueError (figure size must be positive finite); a size of 0 is accepted.\<close>

definition plt_figure :: "real \<times> real \<Rightarrow> py_error + real \<times> real" where
  "plt_figure wh = (if fst wh < 0 \<or> snd wh < 0 then Inl ValueError else Inr wh)"

text \<open>Lines 44-46 (and 329-331): all mutations are shown if no subset is given.\<close>

definition displayed_or_all :: "real list list \<Rightarrow> nat list option \<Rightarrow> nat list" where
  "displayed_or_all data displayed_mutations_arg =
     (case displayed_mutations_arg of None \<Rightarrow> [0..<length data] | Some ds \<Rightarrow> ds)"

text \<open>The rectangle of lines 93-94 (and 397-398) for the value \<open>maf\<close> drawn in column
  \<open>x_pos\<close> at row position \<open>pos\<close> of \<open>n\<close>, with \<open>height = 4\<close>, \<open>width = 2\<close>,
  \<open>y_spacing = 1\<close>; then lines 81-95 for one column.\<close>

definition cell_rect :: "int_settings \<Rightarrow> nat \<Rightarrow> nat \<Rightarrow> nat \<Rightarrow> real \<Rightarrow> rectangle" where
  "cell_rect st x_pos n pos maf =
     \<lparr>xy = (int x_pos * 2, (4 + 1) * (int n - int pos - 1)),
      rect_width = 2, rect_height = 4,
      facecolor = cell_color st maf, edgecolor = Named ''black''\<rparr>"

definition hinton_column :: "int_settings \<Rightarrow> nat \<Rightarrow> real list \<Rightarrow> rectangle list" where
  "hinton_column st x_pos row =
     map (\<lambda>(sa_idx, maf). cell_rect st x_pos (length row) sa_idx maf) (enumerate 0 row)"

fun hinton_cells ::
  "int_settings \<Rightarrow> real list list \<Rightarrow> (nat \<times> nat) list \<Rightarrow> py_error + rectangle list" where
  "hinton_cells st data [] = Inr []"
| "hinton_cells st data ((x_pos, mut_idx) # rest) =
     (case py_index data mut_idx of
        Inl e \<Rightarrow> Inl e
      | Inr row \<Rightarrow>
          (case hinton_cells st data rest of
             Inl e \<Rightarrow> Inl e
           | Inr ps \<Rightarrow> Inr (hinton_column st x_pos row @ ps)))"

text \<open>Lines 97-100, with \<open>label_x_pos = -2\<close>.\<close>

definition hinton_row_texts :: "string list \<Rightarrow> label_text list" where
  "hinton_row_texts row_labels =
     map (\<lambda>(sa_idx, row_name).
            \<lparr>text_xy = (- 2, (4 + 1) * (real (length row_labels) - real sa_idx - 1) + 1),
             text_s = py_replace CHR ''_'' CHR '' '' row_name\<rparr>)
         (enumerate 0 row_labels)"

text \<open>Lines 102-108, with \<open>label_y_pos = 0\<close>; \<^verbatim>\<open>width/2\<close> is 1.\<close>

fun hinton_column_texts ::
  "real list list \<Rightarrow> string list \<Rightarrow> (nat \<times> nat) list \<Rightarrow> py_error + label_text list" where
  "hinton_column_texts data column_labels [] = Inr []"
| "hinton_column_texts data column_labels ((x_pos, mut_idx) # rest) =
     (case py_index data mut_idx of
        Inl e \<Rightarrow> Inl e
      | Inr row \<Rightarrow>
          (case py_index column_labels mut_idx of
             Inl e \<Rightarrow> Inl e
           | Inr name \<Rightarrow>
               (case hinton_column_texts data column_labels rest of
                  Inl e \<Rightarrow> Inl e
                | Inr ts \<Rightarrow>
                    Inr (\<lparr>text_xy = (real x_pos * 2 + 1 + 0.2, 0 + (4 + 1) * real (length row)),
                          text_s = format_gene_name name 12\<rparr> # ts))))"

definition hinton ::
  "int_settings \<Rightarrow> real list list \<Rightarrow> string list option \<Rightarrow> string list option \<Rightarrow>
   nat list option \<Rightarrow> py_error + figure" where
  "hinton st data row_labels column_labels displayed_mutations_arg =
     (let displayed_mutations = displayed_or_all data displayed_mutations_arg;
          x_length = (if row_labels \<noteq> None then 2 + 20 else 0)
                       + int (length displayed_mutations) * 2
      in case py_index data 0 of
           Inl e \<Rightarrow> Inl e
         | Inr row0 \<Rightarrow>
             (let y_length = int (length row0) * (4 + 1) - 1
                               + (if column_labels \<noteq> None then 0 + 20 else 0)
              in case plt_figure (real_of_int x_length / 20.0, real_of_int y_length / 20.0) of
                   Inl e \<Rightarrow> Inl e
                 | Inr wh \<Rightarrow>
              (case hinton_priorities st data displayed_mutations of
                   Inl e \<Rightarrow> Inl e
                 | Inr priorities \<Rightarrow>
                     (case hinton_order priorities column_labels displayed_mutations of
                        Inl e \<Rightarrow> Inl e
                      | Inr order \<Rightarrow>
                          (case hinton_cells st data (enumerate 0 order) of
                             Inl e \<Rightarrow> Inl e
                           | Inr cells \<Rightarrow>
                               (case (case column_labels of
                                        None \<Rightarrow> Inr []
                                      | Some labels \<Rightarrow>
                                          (case hinton_order priorities (Some labels)
                                                  displayed_mutations of
                                             Inl e \<Rightarrow> Inl e
                                           | Inr order2 \<Rightarrow>
                                               hinton_column_texts data labels
                                                 (enumerate 0 order2))) of
                                  Inl e \<Rightarrow> Inl e
                                | Inr ctexts \<Rightarrow>
                                    Inr \<lparr>figsize = wh,
                                         patches = cells,
                                         row_texts = (case row_labels of
                                                        None \<Rightarrow> []
                                                      | Some rl \<Rightarrow> hinton_row_texts rl),
                                         column_texts = ctexts\<rparr>))))))"

subsection \<open>Layout of clustered_table (lines 319-415)\<close>

text \<open>Lines 381-399 for one column: row position \<open>i\<close> shows the sample
  \<^verbatim>\<open>leave_ordering[i]\<close>.\<close>

fun clustered_column_loop ::
  "int_settings \<Rightarrow> nat \<Rightarrow> real list \<Rightarrow> nat list \<Rightarrow> nat list \<Rightarrow> py_error + rectangle list"
  where
  "clustered_column_loop st x_pos row leave_ordering [] = Inr []"
| "clustered_column_loop st x_pos row leave_ordering (i # rest) =
     (case py_index leave_ordering i of
        Inl e \<Rightarrow> Inl e
      | Inr sa_idx \<Rightarrow>
          (case py_index row sa_idx of
             Inl e \<Rightarrow> Inl e
           | Inr maf \<Rightarrow>
               (case clustered_column_loop st x_pos row leave_ordering rest of
                  Inl e \<Rightarrow> Inl e
                | Inr ps \<Rightarrow> Inr (cell_rect st x_pos (length row) i maf # ps))))"

fun clustered_cells ::
  "int_settings \<Rightarrow> real list list \<Rightarrow> nat list \<Rightarrow> (nat \<times> nat) list \<Rightarrow>
   py_error + rectangle list list" where
  "clustered_cells st data leave_ordering [] = Inr []"
| "clustered_cells st data leave_ordering ((x_pos, mut_idx) # rest) =
     (case py_index data mut_idx of
        Inl e \<Rightarrow> Inl e
      | Inr row \<Rightarrow>
          (case clustered_column_loop st x_pos row leave_ordering [0..<length row] of
             Inl e \<Rightarrow> Inl e
           | Inr col \<Rightarrow>
               (case clustered_cells st data leave_ordering rest of
                  Inl e \<Rightarrow> Inl e
                | Inr cols \<Rightarrow> Inr (col # cols))))"

text \<open>Lines 402-406: \<^verbatim>\<open>for i, sa_idx in enumerate(reversed(den['leaves']))\<close>.\<close>

fun clustered_row_texts ::
  "string list \<Rightarrow> (nat \<times> nat) list \<Rightarrow> py_error + label_text list" where
  "clustered_row_texts row_labels [] = Inr []"
| "clustered_row_texts row_labels ((i, sa_idx) # rest) =
     (case py_index row_labels sa_idx of
        Inl e \<Rightarrow> Inl e
      | Inr row_name \<Rightarrow>
          (case clustered_row_texts row_labels rest of
             Inl e \<Rightarrow> Inl e
           | Inr ts \<Rightarrow>
               Inr (\<lparr>text_xy = (- 2, (4 + 1) * (real (length row_labels) - real i - 1) + 0.5),
                     text_s = py_replace CHR ''_'' CHR '' '' row_name\<rparr> # ts)))"

text \<open>Lines 409-415: the names come from \<^verbatim>\<open>patient.gene_names\<close>.\<close>

fun clustered_column_texts ::
  "real list list \<Rightarrow> string list \<Rightarrow> (nat \<times> nat) list \<Rightarrow> py_error + label_text list" where
  "clustered_column_texts data gene_names [] = Inr []"
| "clustered_column_texts data gene_names ((x_pos, mut_idx) # rest) =
     (case py_index data mut_idx of
        Inl e \<Rightarrow> Inl e
      | Inr row \<Rightarrow>
          (case py_index gene_names mut_idx of
             Inl e \<Rightarrow> Inl e
           | Inr name \<Rightarrow>
               (case clustered_column_texts data gene_names rest of
                  Inl e \<Rightarrow> Inl e
                | Inr ts \<Rightarrow>
                    Inr (\<lparr>text_xy = (real x_pos * 2 + 0.5, 0 + (4 + 1) * real (length row)),
                          text_s = format_gene_name name 12\<rparr> # ts))))"

text \<open>The table part of clustered_table. \<open>samples\<close> is \<^verbatim>\<open>patient.n\<close>, \<open>leaves\<close> is
  \<^verbatim>\<open>den['leaves']\<close> of the dendrogram call; the rectangles are kept column by column.
  The second \<^verbatim>\<open>sorted\<close> call (line 410) has the arguments of the first and gives the same
  list \<open>order\<close>.\<close>

record clustered_figure =
  cfigsize :: "real \<times> real"
  columns :: "rectangle list list"
  crow_texts :: "label_text list"
  ccolumn_texts :: "label_text list"

definition clustered_table ::
  "int_settings \<Rightarrow> real list list \<Rightarrow> nat \<Rightarrow> string list \<Rightarrow> nat list \<Rightarrow>
   string list option \<Rightarrow> string list option \<Rightarrow> nat list option \<Rightarrow>
   py_error + clustered_figure" where
  "clustered_table st data samples gene_names leaves row_labels column_labels
     displayed_mutations_arg =
     (let displayed_mutations = displayed_or_all data displayed_mutations_arg;
          table_ax_width = 2 + real (length displayed_mutations) * 2;
          dendrogram_ax_width = real samples * 2 / 2.0;
          x_length = (if row_labels \<noteq> None then 2 + 20 else 0)
                       + table_ax_width + dendrogram_ax_width;
          leave_ordering = leave_ordering_of leaves
      in case py_index data 0 of
           Inl e \<Rightarrow> Inl e
         | Inr row0 \<Rightarrow>
             (let y_length = int (length row0) * (4 + 1) - 1
                               + (if column_labels \<noteq> None then 0 + 20 else 0)
              in case plt_figure (x_length / 20.0, real_of_int y_length / 20.0) of
                   Inl e \<Rightarrow> Inl e
                 | Inr wh \<Rightarrow>
              (case clustered_priorities st data leaves displayed_mutations of
                   Inl e \<Rightarrow> Inl e
                 | Inr priorities \<Rightarrow>
                     (case clustered_order priorities gene_names displayed_mutations of
                        Inl e \<Rightarrow> Inl e
                      | Inr order \<Rightarrow>
                          (case clustered_cells st data leave_ordering (enumerate 0 order) of
                             Inl e \<Rightarrow> Inl e
                           | Inr cols \<Rightarrow>
                               (case (case row_labels of
                                        None \<Rightarrow> Inr []
                                      | Some rl \<Rightarrow>
                                          clustered_row_texts rl
                                            (enumerate 0 (rev leaves))) of
                                  Inl e \<Rightarrow> Inl e
                                | Inr rtexts \<Rightarrow>
                                    (case (case column_labels of
                                             None \<Rightarrow> Inr []
                                           | Some labels \<Rightarrow>
                                               clustered_column_texts data gene_names
                                                 (enumerate 0 order)) of
                                       Inl e \<Rightarrow> Inl e
                                     | Inr ctexts \<Rightarrow>
                                         Inr \<lparr>cfigsize = wh,
                                              columns = cols,
                                              crow_texts = rtexts,
                                              ccolumn_texts = ctexts\<rparr>)))))))"

subsection \<open>Conditions on the inputs\<close>

text \<open>A leaf ordering fits a row when the loop over \<^verbatim>\<open>range(len(row))\<close> can read every
  position of it and finds a sample of the row there.\<close>

definition leaf_order_fits :: "nat list \<Rightarrow> real list \<Rightarrow> bool" where
  "leaf_order_fits lo row \<longleftrightarrow>
     length row \<le> length lo \<and> list_all (\<lambda>i. lo ! i < length row) [0..<length row]"

text \<open>The rank of a state in the order present above ambiguous above absent.\<close>

definition state_rank :: "int_settings \<Rightarrow> real \<Rightarrow> nat" where
  "state_rank st v =
     (if v > 0 then 2 else if v = POS_UNKNOWN st \<or> v = NEG_UNKNOWN st then 1 else 0)"

text \<open>The coverage intensity as the specification words it: 0 for a coverage of at most
  0, 1 for a coverage of at least 1000, and \<open>log10 (coverage) / 3\<close> otherwise.\<close>

definition spec_cov_intensity :: "real \<Rightarrow> real" where
  "spec_cov_intensity cov = (if cov \<le> 0 then 0 else if cov \<ge> 1000 then 1 else log 10 cov / 3)"

section \<open>Properties\<close>

subsection \<open>The priority loops compute the base-4 sum\<close>

lemma priority_term_weight:
  "priority_term st n pos maf = spec_weight st maf * 4 ^ (n - pos - 1)"
  by (simp add: priority_term_def spec_weight_def)

lemma hinton_row_loop_sum:
  "hinton_row_loop st n ps p = p + (\<Sum>(i, m)\<leftarrow>ps. spec_weight st m * 4 ^ (n - i - 1))"
  by (induction ps arbitrary: p) (auto simp: priority_term_weight)

lemma enumerate_sum:
  "(\<Sum>(i, m)\<leftarrow>enumerate 0 row. f i m) = (\<Sum>i\<leftarrow>[0..<length row]. f i (row ! i))"
proof -
  have "map (\<lambda>(i, m). f i m) (enumerate 0 row) = map (\<lambda>i. f i (row ! i)) [0..<length row]"
    by (rule nth_equalityI) (simp_all add: nth_enumerate_eq)
  then show ?thesis by simp
qed

lemma hinton_row_spec:
  "hinton_row_loop st (length row) (enumerate 0 row) p =
     p + spec_priority st row (declared_order row)"
proof -
  have "(\<Sum>i\<leftarrow>[0..<length row]. spec_weight st (row ! i) * 4 ^ (length row - i - 1)) =
        (\<Sum>i\<leftarrow>[0..<length row]. spec_weight st (row ! ([0..<length row] ! i)) * 4 ^ (length row - i - 1))"
    by (rule arg_cong [where f = sum_list], rule map_cong) simp_all
  then show ?thesis
    by (simp add: hinton_row_loop_sum enumerate_sum spec_priority_def declared_order_def)
qed

lemma clustered_row_loop_sum:
  "list_all (\<lambda>i. i < length lo \<and> lo ! i < length row) is \<Longrightarrow>
   clustered_row_loop st row lo is p =
     Inr (p + (\<Sum>i\<leftarrow>is. spec_weight st (row ! (lo ! i)) * 4 ^ (length row - i - 1)))"
  by (induction "is" arbitrary: p) (auto simp: py_index_def priority_term_weight)

lemma hinton_priorities_loop_spec:
  "distinct ds \<Longrightarrow> list_all (\<lambda>k. k < length data) ds \<Longrightarrow> length ps = length data \<Longrightarrow>
   hinton_priorities_loop st data ds ps =
     Inr (map (\<lambda>k. if k \<in> set ds
                    then ps ! k + spec_priority st (data ! k) (declared_order (data ! k))
                    else ps ! k) [0..<length data])"
proof (induction ds arbitrary: ps)
  case Nil
  have "map ((!) ps) [0..<length ps] = ps" by (rule map_nth)
  with Nil show ?case by simp
next
  case (Cons m ds)
  let ?ps = "ps[m := hinton_row_loop st (length (data ! m)) (enumerate 0 (data ! m)) (ps ! m)]"
  from Cons.prems have m: "m < length data" "m \<notin> set ds" and d: "distinct ds"
    and a: "list_all (\<lambda>k. k < length data) ds" by simp_all
  have "hinton_priorities_loop st data (m # ds) ps = hinton_priorities_loop st data ds ?ps"
    using m by (simp add: py_index_def)
  also have "\<dots> = Inr (map (\<lambda>k. if k \<in> set ds
                    then ?ps ! k + spec_priority st (data ! k) (declared_order (data ! k))
                    else ?ps ! k) [0..<length data])"
    using Cons.IH [OF d a, of ?ps] Cons.prems by simp
  also have "\<dots> = Inr (map (\<lambda>k. if k \<in> set (m # ds)
                    then ps ! k + spec_priority st (data ! k) (declared_order (data ! k))
                    else ps ! k) [0..<length data])"
    using m Cons.prems by (auto simp: hinton_row_spec nth_list_update)
  finally show ?case .
qed


lemma clustered_row_spec:
  assumes "length row \<le> length lo" "\<forall>i<length row. lo ! i < length row"
  shows "clustered_row_loop st row lo [0..<length row] p = Inr (p + spec_priority st row lo)"
proof -
  from assms have "list_all (\<lambda>i. i < length lo \<and> lo ! i < length row) [0..<length row]"
    by (simp add: list_all_iff)
  then show ?thesis
    by (simp add: clustered_row_loop_sum spec_priority_def)
qed

lemma clustered_priorities_loop_spec:
  "distinct ds \<Longrightarrow> list_all (\<lambda>k. k < length data \<and> leaf_order_fits lo (data ! k)) ds \<Longrightarrow>
   length ps = length data \<Longrightarrow>
   clustered_priorities_loop st data lo ds ps =
     Inr (map (\<lambda>k. if k \<in> set ds then ps ! k + spec_priority st (data ! k) lo else ps ! k)
            [0..<length data])"
proof (induction ds arbitrary: ps)
  case Nil
  have "map ((!) ps) [0..<length ps] = ps" by (rule map_nth)
  with Nil show ?case by simp
next
  case (Cons m ds)
  let ?ps = "ps[m := ps ! m + spec_priority st (data ! m) lo]"
  from Cons.prems have m: "m < length data" "m \<notin> set ds" and d: "distinct ds"
    and a: "list_all (\<lambda>k. k < length data \<and> leaf_order_fits lo (data ! k)) ds"
    and f: "leaf_order_fits lo (data ! m)" by simp_all
  from f have row: "clustered_row_loop st (data ! m) lo [0..<length (data ! m)] (ps ! m) =
      Inr (ps ! m + spec_priority st (data ! m) lo)"
    by (intro clustered_row_spec) (simp_all add: leaf_order_fits_def list_all_iff)
  have "clustered_priorities_loop st data lo (m # ds) ps =
        clustered_priorities_loop st data lo ds ?ps"
    using m row by (simp add: py_index_def)
  also have "\<dots> = Inr (map (\<lambda>k. if k \<in> set ds
                    then ?ps ! k + spec_priority st (data ! k) lo
                    else ?ps ! k) [0..<length data])"
    using Cons.IH [OF d a, of ?ps] Cons.prems by simp
  also have "\<dots> = Inr (map (\<lambda>k. if k \<in> set (m # ds)
                    then ps ! k + spec_priority st (data ! k) lo
                    else ps ! k) [0..<length data])"
    using m Cons.prems by (auto simp: nth_list_update)
  finally show ?case .
qed

text \<open>Claim C1. For every state vector over \<open>S\<close> samples the computed priority is the
  sum, over the positions \<open>i\<close> of the effective sample order, of
  \<open>weight (state i) * 4 ^ (S - i - 1)\<close>, with weight 3 for a value above 0, 1 for either
  sentinel and 0 otherwise. For hinton the effective order is the declared one; for
  clustered_table it is \<open>leave_ordering\<close>, the dendrogram's leaves from the top row down.
  The displayed mutations are distinct rows of the matrix. With the states
  \<open>[[present, absent], [absent, present], [POS_UNKNOWN, absent]]\<close> the priorities are 12, 3
  and 4, and the columns come out as mutation 0, then 2, then 1.\<close>

theorem C1_priority_is_base4_sum:
  "(distinct ds \<and> list_all (\<lambda>k. k < length data) ds \<longrightarrow>
      hinton_priorities st data ds =
        Inr (map (\<lambda>k. if k \<in> set ds then spec_priority st (data ! k) (declared_order (data ! k))
                       else 0) [0..<length data]))
   \<and> (distinct ds \<and>
        list_all (\<lambda>k. k < length data \<and> leaf_order_fits (leave_ordering_of leaves) (data ! k)) ds \<longrightarrow>
      clustered_priorities st data leaves ds =
        Inr (map (\<lambda>k. if k \<in> set ds then spec_priority st (data ! k) (leave_ordering_of leaves)
                       else 0) [0..<length data]))
   \<and> (POS_UNKNOWN st < 0 \<and> NEG_UNKNOWN st < 0 \<longrightarrow>
        hinton_priorities st [[1, 0], [0, 1], [POS_UNKNOWN st, 0]] [0, 1, 2] = Inr [12, 3, 4]
      \<and> hinton_order [12, 3, 4] None [0, 1, 2] = Inr [0, 2, 1])"
proof (intro conjI impI)
  assume "distinct ds \<and> list_all (\<lambda>k. k < length data) ds"
  then show "hinton_priorities st data ds =
        Inr (map (\<lambda>k. if k \<in> set ds then spec_priority st (data ! k) (declared_order (data ! k))
                       else 0) [0..<length data])"
    unfolding hinton_priorities_def
    by (subst hinton_priorities_loop_spec) simp_all
next
  assume "distinct ds \<and>
        list_all (\<lambda>k. k < length data \<and> leaf_order_fits (leave_ordering_of leaves) (data ! k)) ds"
  then show "clustered_priorities st data leaves ds =
        Inr (map (\<lambda>k. if k \<in> set ds then spec_priority st (data ! k) (leave_ordering_of leaves)
                       else 0) [0..<length data])"
    unfolding clustered_priorities_def
    by (subst clustered_priorities_loop_spec) simp_all
next
  assume s: "POS_UNKNOWN st < 0 \<and> NEG_UNKNOWN st < 0"
  have d: "distinct [0::nat, 1, 2]" by simp
  have "hinton_priorities st [[1, 0], [0, 1], [POS_UNKNOWN st, 0]] [0, 1, 2] =
        Inr (map (\<lambda>k. 0 + spec_priority st ([[1, 0], [0, 1], [POS_UNKNOWN st, 0]] ! k)
                          (declared_order ([[1, 0], [0, 1], [POS_UNKNOWN st, 0]] ! k))) [0, 1, 2])"
    unfolding hinton_priorities_def
    by (subst hinton_priorities_loop_spec [OF d]) (simp_all add: upt_rec numeral_eq_Suc)
  also have "\<dots> = Inr [12, 3, 4]"
    using s by (simp add: spec_priority_def declared_order_def spec_weight_def upt_rec)
  finally show "hinton_priorities st [[1, 0], [0, 1], [POS_UNKNOWN st, 0]] [0, 1, 2] = Inr [12, 3, 4]" .
next
  show "hinton_order [12, 3, 4] None [0, 1, 2] = Inr [0, 2, 1]"
    by (simp add: hinton_order_def)
qed

theorem C1_priority_is_base4_sum_witness:
  "hinton_priorities \<lparr>POS_UNKNOWN = - 2, NEG_UNKNOWN = - 1\<rparr> [[1, 0], [0, 1], [- 2, 0]] [0, 1, 2]
     = Inr [12, 3, 4]
   \<and> clustered_priorities \<lparr>POS_UNKNOWN = - 2, NEG_UNKNOWN = - 1\<rparr> [[1, 0], [0, 1], [- 2, 0]]
       [0, 1] [0, 1, 2] = Inr [3, 12, 1]
   \<and> hinton_order [12, 3, 4] None [0, 1, 2] = Inr [0, 2, 1]"
  using C1_priority_is_base4_sum [of "[0, 1, 2]" "[[1, 0], [0, 1], [- 2, 0]]"
          "\<lparr>POS_UNKNOWN = - 2, NEG_UNKNOWN = - 1\<rparr>" "[0, 1]"]
  by (simp add: leaf_order_fits_def leave_ordering_of_def spec_priority_def spec_weight_def
        declared_order_def upt_rec)

subsection \<open>The priority orders state vectors lexicographically\<close>

lemma spec_weight_bounds: "0 \<le> spec_weight st v" "spec_weight st v \<le> 3"
  by (simp_all add: spec_weight_def)

lemma spec_weight_rank:
  "state_rank st a = state_rank st b \<Longrightarrow> spec_weight st a = spec_weight st b"
  "state_rank st a < state_rank st b \<Longrightarrow> spec_weight st a + 1 \<le> spec_weight st b"
  by (auto simp: spec_weight_def state_rank_def split: if_splits)

lemma declared_priority_Cons:
  "spec_priority st (x # xs) (declared_order (x # xs)) =
     spec_weight st x * 4 ^ length xs + spec_priority st xs (declared_order xs)"
proof -
  have "[0..<length (x # xs)] = 0 # map Suc [0..<length xs]"
    by (simp add: upt_conv_Cons map_Suc_upt del: upt_Suc)
  then have "spec_priority st (x # xs) (declared_order (x # xs)) =
      spec_weight st x * 4 ^ length xs +
      (\<Sum>i\<leftarrow>[0..<length xs]. spec_weight st ((x # xs) ! ([0..<Suc (length xs)] ! Suc i))
           * 4 ^ (length xs - i - 1))"
    by (simp add: spec_priority_def declared_order_def comp_def del: upt_Suc)
  also have "(\<Sum>i\<leftarrow>[0..<length xs]. spec_weight st ((x # xs) ! ([0..<Suc (length xs)] ! Suc i))
           * 4 ^ (length xs - i - 1)) =
      (\<Sum>i\<leftarrow>[0..<length xs]. spec_weight st (xs ! ([0..<length xs] ! i)) * 4 ^ (length xs - i - 1))"
    by (rule arg_cong [where f = sum_list], rule map_cong) (simp_all del: upt_Suc)
  finally show ?thesis by (simp add: spec_priority_def declared_order_def)
qed

lemma declared_priority_bounds:
  "0 \<le> spec_priority st v (declared_order v) \<and> spec_priority st v (declared_order v) < 4 ^ length v"
proof (induction v)
  case Nil
  show ?case by (simp add: spec_priority_def)
next
  case (Cons x xs)
  have a: "spec_weight st x * 4 ^ length xs \<le> 3 * 4 ^ length xs"
    by (rule mult_right_mono) (simp_all add: spec_weight_bounds)
  have b: "0 \<le> spec_weight st x * 4 ^ length xs"
    by (rule mult_nonneg_nonneg) (simp_all add: spec_weight_bounds)
  have c: "(4::int) ^ length (x # xs) = 4 * 4 ^ length xs" by simp
  from Cons a b show ?case
    unfolding declared_priority_Cons c by linarith
qed

lemma declared_priority_lex:
  "length v = length v' \<Longrightarrow> i < length v \<Longrightarrow>
   \<forall>j<i. state_rank st (v ! j) = state_rank st (v' ! j) \<Longrightarrow>
   state_rank st (v' ! i) < state_rank st (v ! i) \<Longrightarrow>
   spec_priority st v' (declared_order v') < spec_priority st v (declared_order v)"
proof (induction v arbitrary: v' i)
  case Nil
  then show ?case by simp
next
  case (Cons x xs)
  then obtain y ys where v': "v' = y # ys" and len: "length xs = length ys"
    by (cases v') auto
  show ?case
  proof (cases i)
    case 0
    with Cons.prems v' have "spec_weight st y + 1 \<le> spec_weight st x"
      by (simp add: spec_weight_rank(2))
    then have "(spec_weight st y + 1) * 4 ^ length xs \<le> spec_weight st x * 4 ^ length xs"
      by simp
    moreover have "spec_priority st ys (declared_order ys) < 4 ^ length xs"
      using declared_priority_bounds [of st ys] len by simp
    moreover have "0 \<le> spec_priority st xs (declared_order xs)"
      using declared_priority_bounds [of st xs] by simp
    ultimately show ?thesis
      by (simp add: v' declared_priority_Cons len [symmetric] algebra_simps)
  next
    case (Suc k)
    from Cons.prems v' Suc have "state_rank st x = state_rank st y"
      by (auto dest: spec [where x = 0])
    then have w: "spec_weight st x = spec_weight st y" by (rule spec_weight_rank(1))
    have "\<forall>j<k. state_rank st (xs ! j) = state_rank st (ys ! j)"
    proof (intro allI impI)
      fix j assume "j < k"
      then have "Suc j < i" using Suc by simp
      with Cons.prems(3) v' show "state_rank st (xs ! j) = state_rank st (ys ! j)"
        by (auto dest: spec [where x = "Suc j"])
    qed
    moreover have "k < length xs" "state_rank st (ys ! k) < state_rank st (xs ! k)"
      using Cons.prems v' Suc by simp_all
    ultimately have "spec_priority st ys (declared_order ys) < spec_priority st xs (declared_order xs)"
      using Cons.IH [of ys k] len by simp
    then show ?thesis by (simp add: v' declared_priority_Cons w len)
  qed
qed

text \<open>Claim C2. Let two state vectors of equal length carry states of the same rank at
  every position before \<open>i\<close> (as they do when their entries agree there), and let the
  state of \<open>v\<close> at \<open>i\<close> rank strictly higher than that of \<open>v'\<close> in the order present above
  ambiguous above absent. Then the priority hinton computes for \<open>v\<close> is strictly greater
  than the one it computes for \<open>v'\<close>, whatever stands after position \<open>i\<close>.\<close>

theorem C2_priority_lexicographic:
  assumes "length v = length v'" and "i < length v"
    and "\<forall>j<i. state_rank st (v ! j) = state_rank st (v' ! j)"
    and "state_rank st (v' ! i) < state_rank st (v ! i)"
  shows "hinton_row_loop st (length v') (enumerate 0 v') 0
           < hinton_row_loop st (length v) (enumerate 0 v) 0"
  using declared_priority_lex [OF assms] by (simp add: hinton_row_spec)

theorem C2_priority_lexicographic_witness:
  "hinton_row_loop \<lparr>POS_UNKNOWN = - 2, NEG_UNKNOWN = - 1\<rparr> 3 (enumerate 0 [1, - 2, 1]) 0
     < hinton_row_loop \<lparr>POS_UNKNOWN = - 2, NEG_UNKNOWN = - 1\<rparr> 3 (enumerate 0 [1, 1, 0]) 0"
  using C2_priority_lexicographic [of "[1, 1, 0]" "[1, - 2, 1]" 1 "\<lparr>POS_UNKNOWN = - 2, NEG_UNKNOWN = - 1\<rparr>"]
  by (simp add: state_rank_def numeral_3_eq_3)

subsection \<open>The three display classes\<close>

text \<open>Claim C10. The chain that classifies a cell value is total and has three outcomes:
  a value above 0 is present (weight 3, the present hue); a value that is not above 0
  and equals \<open>POS_UNKNOWN\<close> or \<open>NEG_UNKNOWN\<close> is ambiguous (weight 1, the ambiguous hue);
  every other value, zero and the other negative values included, is absent (weight 0,
  the absent hue). The three hues are pairwise different, so a value gets exactly one
  class. Sentinels that are not above 0 both get weight 1 and the same ambiguous hue.
  The statement covers the priority loop and the colour chains of hinton,
  clustered_table and create_incompatible_mp_table.\<close>

theorem C10_classification_total:
  "(maf > 0 \<longrightarrow>
      priority_term st n pos maf = 3 * 4 ^ (n - pos - 1)
      \<and> cell_color st maf = Named ''blue'' \<and> class_color st maf = present_color)
   \<and> (\<not> maf > 0 \<and> (maf = POS_UNKNOWN st \<or> maf = NEG_UNKNOWN st) \<longrightarrow>
      priority_term st n pos maf = 1 * 4 ^ (n - pos - 1)
      \<and> cell_color st maf = RGB 0.9 0.75 0.75 \<and> class_color st maf = unknown_color)
   \<and> (\<not> maf > 0 \<and> maf \<noteq> POS_UNKNOWN st \<and> maf \<noteq> NEG_UNKNOWN st \<longrightarrow>
      priority_term st n pos maf = 0
      \<and> cell_color st maf = RGB 1.0 0.3 0.3 \<and> class_color st maf = absent_color)
   \<and> (POS_UNKNOWN st \<le> 0 \<and> NEG_UNKNOWN st \<le> 0 \<longrightarrow>
      priority_term st n pos (POS_UNKNOWN st) = 1 * 4 ^ (n - pos - 1)
      \<and> priority_term st n pos (NEG_UNKNOWN st) = priority_term st n pos (POS_UNKNOWN st)
      \<and> cell_color st (POS_UNKNOWN st) = RGB 0.9 0.75 0.75
      \<and> cell_color st (NEG_UNKNOWN st) = cell_color st (POS_UNKNOWN st)
      \<and> class_color st (POS_UNKNOWN st) = unknown_color
      \<and> class_color st (NEG_UNKNOWN st) = class_color st (POS_UNKNOWN st))
   \<and> present_color \<noteq> unknown_color \<and> present_color \<noteq> absent_color
   \<and> unknown_color \<noteq> absent_color
   \<and> Named ''blue'' \<noteq> RGB 0.9 0.75 0.75 \<and> Named ''blue'' \<noteq> RGB 1.0 0.3 0.3
   \<and> RGB 0.9 0.75 0.75 \<noteq> RGB 1.0 0.3 0.3"
  by (simp add: priority_term_def cell_color_def class_color_def present_color_def
        unknown_color_def absent_color_def)

theorem C10_classification_total_witness:
  "priority_term \<lparr>POS_UNKNOWN = - 2, NEG_UNKNOWN = - 1\<rparr> 3 1 (- 7) = 0
   \<and> cell_color \<lparr>POS_UNKNOWN = - 2, NEG_UNKNOWN = - 1\<rparr> (- 7) = RGB 1.0 0.3 0.3
   \<and> class_color \<lparr>POS_UNKNOWN = - 2, NEG_UNKNOWN = - 1\<rparr> (- 7) = absent_color
   \<and> priority_term \<lparr>POS_UNKNOWN = - 2, NEG_UNKNOWN = - 1\<rparr> 3 1 (- 2) = 4
   \<and> priority_term \<lparr>POS_UNKNOWN = - 2, NEG_UNKNOWN = - 1\<rparr> 3 1 (- 1) = 4
   \<and> class_color \<lparr>POS_UNKNOWN = - 2, NEG_UNKNOWN = - 1\<rparr> (- 1) = unknown_color"
proof -
  let ?st = "\<lparr>POS_UNKNOWN = - 2, NEG_UNKNOWN = - 1\<rparr>"
  note inst = C10_classification_total [of "- 7" ?st 3 1]
  have absent: "\<not> (- 7 :: real) > 0 \<and> - 7 \<noteq> POS_UNKNOWN ?st \<and> - 7 \<noteq> NEG_UNKNOWN ?st"
    by simp
  have sentinels: "POS_UNKNOWN ?st \<le> 0 \<and> NEG_UNKNOWN ?st \<le> 0" by simp
  from inst absent have a: "priority_term ?st 3 1 (- 7) = 0
      \<and> cell_color ?st (- 7) = RGB 1.0 0.3 0.3 \<and> class_color ?st (- 7) = absent_color"
    by blast
  from inst sentinels have b: "priority_term ?st 3 1 (POS_UNKNOWN ?st) = 1 * 4 ^ (3 - 1 - 1)
      \<and> priority_term ?st 3 1 (NEG_UNKNOWN ?st) = priority_term ?st 3 1 (POS_UNKNOWN ?st)
      \<and> class_color ?st (POS_UNKNOWN ?st) = unknown_color
      \<and> class_color ?st (NEG_UNKNOWN ?st) = class_color ?st (POS_UNKNOWN ?st)"
    by blast
  have p: "POS_UNKNOWN ?st = - 2" "NEG_UNKNOWN ?st = - 1" by simp_all
  have e: "(1::int) * 4 ^ (3 - 1 - 1) = 4" by simp
  from b have "priority_term ?st 3 1 (- 2) = 4 \<and> priority_term ?st 3 1 (- 1) = 4
      \<and> class_color ?st (- 1) = unknown_color"
    unfolding p e by simp
  with a show ?thesis by blast
qed

subsection \<open>The two intensities of a cell\<close>

lemma encode_cell_total:
  "encode_cell st maf mut_reads cov =
     Inr \<lparr>maf_value = (if cov > 0 then min 1 (2 * mut_reads / cov) else 0),
          cov_value = (if cov \<le> 0 then 0 else if cov \<ge> 1000 then 1 else log 10 cov / 3),
          border = class_color st maf\<rparr>"
  by (auto simp: encode_cell_def raw_maf_of_def py_truediv_def maf_intensity_def cov_intensity_def
        math_log_def log_def min_def field_simps)

text \<open>Claim C5. Encoding a cell never raises, and its variant-fraction intensity is
  \<open>min 1 (2 * supporting_reads / coverage)\<close> for a coverage above 0 and 0 otherwise, so no
  division by zero occurs. A fraction of 0 gives 0, fractions of 0.5 and of 0.9 give 1,
  and a coverage of 0 gives 0. Floats are read as real numbers.\<close>

theorem C5_variant_fraction_intensity:
  "(\<exists>e. encode_cell st maf mut_reads cov = Inr e
        \<and> maf_value e = (if cov > 0 then min 1 (2 * mut_reads / cov) else 0))
   \<and> map_sum id maf_value (encode_cell st maf 0 10) = Inr 0
   \<and> map_sum id maf_value (encode_cell st maf 5 10) = Inr 1
   \<and> map_sum id maf_value (encode_cell st maf 9 10) = Inr 1
   \<and> map_sum id maf_value (encode_cell st maf 5 0) = Inr 0
   \<and> raw_maf_of mut_reads 0 = Inr 0"
  by (simp add: encode_cell_total raw_maf_of_def)

lemma log10_1000: "log 10 (1000::real) = 3"
proof -
  have "log 10 ((10::real) powr 3) = 3" by (rule log_powr_cancel) simp_all
  then show ?thesis by simp
qed

lemma cov_intensity_eq:
  "cov_intensity cov = Inr (if cov \<le> 0 then 0 else if cov \<ge> 1000 then 1 else log 10 cov / 3)"
  by (auto simp: cov_intensity_def math_log_def py_truediv_def log_def)

lemma spec_cov_intensity_mono:
  assumes "a = 0 \<or> 1 \<le> a" "b = 0 \<or> 1 \<le> b" "a \<le> b"
  shows "spec_cov_intensity a \<le> spec_cov_intensity b"
proof -
  have up: "log 10 x / 3 \<le> 1" if "0 < x" "x < 1000" for x :: real
  proof -
    have "log 10 x \<le> log 10 1000" using that by simp
    then show ?thesis by (simp add: log10_1000)
  qed
  have lo: "0 \<le> log 10 x / 3" if "1 \<le> x" for x :: real
    using that by simp
  have mid: "log 10 x / 3 \<le> log 10 y / 3" if "1 \<le> x" "x \<le> y" for x y :: real
    using that by simp
  show ?thesis
    using assms up [of a] lo [of b] mid [of a b]
    by (auto simp: spec_cov_intensity_def)
qed

text \<open>The expression of line 198 is not monotone on all coverages from 0 on: a coverage
  of one half lies above a coverage of 0 and gets a negative value, below the value 0 of
  coverage 0.\<close>

theorem C6_counterexample:
  "cov_intensity 0 = Inr 0 \<and> cov_intensity (1 / 2) = Inr (log 10 (1 / 2) / 3)
   \<and> log 10 (1 / 2) / 3 < (0::real) \<and> (0::real) \<le> 1 / 2"
  by (simp add: cov_intensity_eq)


text \<open>Claim C6, amended. The coverage intensity is 0 for a coverage of at most 0, 1 for a
  coverage of at least 1000 and \<open>log10 (coverage) / 3\<close> otherwise, and computing it never
  raises. It is 0 at 0 and at 1, and 1 at 1000 and at 10000. It is monotone non-decreasing
  on the coverages that are 0 or at least 1, hence on all whole-number read depths;
  strictly between 0 and 1 its value is negative.\<close>

theorem C6_coverage_intensity:
  "cov_intensity cov = Inr (spec_cov_intensity cov)
   \<and> cov_intensity 0 = Inr 0 \<and> cov_intensity 1 = Inr 0
   \<and> cov_intensity 1000 = Inr 1 \<and> cov_intensity 10000 = Inr 1
   \<and> ((a = 0 \<or> 1 \<le> a) \<and> (b = 0 \<or> 1 \<le> b) \<and> a \<le> b \<longrightarrow>
        (\<exists>x y. cov_intensity a = Inr x \<and> cov_intensity b = Inr y \<and> x \<le> y))
   \<and> (m \<le> n \<longrightarrow>
        (\<exists>x y. cov_intensity (real m) = Inr x \<and> cov_intensity (real n) = Inr y \<and> x \<le> y))
   \<and> (0 < cov \<and> cov < 1 \<longrightarrow> (\<exists>x. cov_intensity cov = Inr x \<and> x < 0))"
proof -
  have eq: "cov_intensity c = Inr (spec_cov_intensity c)" for c
    by (simp add: cov_intensity_eq spec_cov_intensity_def)
  have "spec_cov_intensity (real m) \<le> spec_cov_intensity (real n)" if "m \<le> n"
  proof (rule spec_cov_intensity_mono)
    show "real m = 0 \<or> 1 \<le> real m" by (cases m) simp_all
    show "real n = 0 \<or> 1 \<le> real n" by (cases n) simp_all
    show "real m \<le> real n" using that by simp
  qed
  moreover have "spec_cov_intensity cov < 0" if "0 < cov" "cov < 1"
    using that by (simp add: spec_cov_intensity_def)
  moreover have "spec_cov_intensity 0 = 0" "spec_cov_intensity 1 = 0"
    "spec_cov_intensity 1000 = 1" "spec_cov_intensity 10000 = 1"
    by (simp_all add: spec_cov_intensity_def)
  ultimately show ?thesis
    by (simp add: eq spec_cov_intensity_mono)
qed

theorem C6_coverage_intensity_witness:
  "(\<exists>x y. cov_intensity 1 = Inr x \<and> cov_intensity 1000 = Inr y \<and> x \<le> y)
   \<and> (\<exists>x y. cov_intensity (real (2::nat)) = Inr x \<and> cov_intensity (real (5::nat)) = Inr y \<and> x \<le> y)
   \<and> (\<exists>x. cov_intensity (1 / 2) = Inr x \<and> x < 0)"
proof -
  note inst = C6_coverage_intensity [of "1 / 2" 1 1000 2 5]
  have h1: "((1::real) = 0 \<or> 1 \<le> (1::real)) \<and> ((1000::real) = 0 \<or> 1 \<le> (1000::real))
      \<and> (1::real) \<le> 1000" by simp
  have h2: "(2::nat) \<le> 5" by simp
  have h3: "(0::real) < 1 / 2 \<and> (1::real) / 2 < 1" by simp
  from inst h1 have "\<exists>x y. cov_intensity 1 = Inr x \<and> cov_intensity 1000 = Inr y \<and> x \<le> y"
    by blast
  moreover from inst h2
  have "\<exists>x y. cov_intensity (real (2::nat)) = Inr x \<and> cov_intensity (real (5::nat)) = Inr y
      \<and> x \<le> y" by blast
  moreover from inst h3 have "\<exists>x. cov_intensity (1 / 2) = Inr x \<and> x < 0" by blast
  ultimately show ?thesis by blast
qed

subsection \<open>Formatting gene names\<close>

lemma find_loop_none_iff: "find_loop c i xs = - 1 \<longleftrightarrow> c \<notin> set xs"
  by (induction xs arbitrary: i) auto

lemma find_loop_some:
  "c \<in> set xs \<Longrightarrow> find_loop c i xs = int (i + length (takeWhile (\<lambda>x. x \<noteq> c) xs))"
  by (induction xs arbitrary: i) auto

lemma py_find_none_iff: "py_find s c n = - 1 \<longleftrightarrow> c \<notin> set (drop n s)"
  by (simp add: py_find_def find_loop_none_iff)

lemma py_find_some:
  "c \<in> set (drop n s) \<Longrightarrow>
   py_find s c n = int (n + length (takeWhile (\<lambda>x. x \<noteq> c) (drop n s)))"
  by (simp add: py_find_def find_loop_some)

lemma no_hit_after_cut:
  "c \<notin> set (drop n (take (n + length (takeWhile (\<lambda>x. x \<noteq> c) (drop n s))) s))"
proof -
  have "drop n (take (n + length (takeWhile (\<lambda>x. x \<noteq> c) (drop n s))) s) =
        take (length (takeWhile (\<lambda>x. x \<noteq> c) (drop n s))) (drop n s)"
    by (simp add: drop_take)
  also have "\<dots> = takeWhile (\<lambda>x. x \<noteq> c) (drop n s)"
    by (rule takeWhile_eq_take [symmetric])
  finally show ?thesis by (auto dest: set_takeWhileD)
qed

lemma no_hit_prefix:
  assumes "c \<notin> set (drop n s)"
  shows "c \<notin> set (drop n (take m s))"
proof
  assume "c \<in> set (drop n (take m s))"
  then have "c \<in> set (take (m - n) (drop n s))" by (simp only: drop_take)
  then have "c \<in> set (drop n s)" by (rule in_set_takeD)
  with assms show False by contradiction
qed

lemma py_remove_absent: "c \<notin> set s \<Longrightarrow> py_remove c s = s"
  by (auto simp: py_remove_def filter_id_conv)

lemma py_remove_set: "set (py_remove c s) = set s - {c}"
  by (auto simp: py_remove_def)

lemma format_gene_name_set:
  "set (format_gene_name x L) \<subseteq> set x - {CHR '' '', CHR 0x22}"
proof -
  have "set (take k (py_remove (CHR 0x22) (py_remove CHR '' '' x))) \<subseteq> set x - {CHR '' '', CHR 0x22}"
    for k
    using set_take_subset [of k "py_remove (CHR 0x22) (py_remove CHR '' '' x)"]
    by (auto simp: py_remove_set)
  moreover have "set (py_remove (CHR 0x22) (py_remove CHR '' '' x)) \<subseteq> set x - {CHR '' '', CHR 0x22}"
    by (auto simp: py_remove_set)
  moreover have "set (take j (take k (py_remove (CHR 0x22) (py_remove CHR '' '' x))))
      \<subseteq> set x - {CHR '' '', CHR 0x22}" for j k
    by (simp only: take_take) (rule calculation(1))
  ultimately show ?thesis
    unfolding format_gene_name_def Let_def py_slice_to_def
    by (simp only: split: if_split) blast
qed

lemma format_gene_name_fixed:
  assumes "CHR '' '' \<notin> set y" "CHR 0x22 \<notin> set y"
    and "py_find y CHR '','' 6 = - 1" and "int (length y) \<le> L"
  shows "format_gene_name y L = y"
  using assms by (simp add: format_gene_name_def py_remove_absent)

lemma format_gene_name_stripped:
  "format_gene_name (py_remove (CHR 0x22) (py_remove CHR '' '' x)) L = format_gene_name x L"
proof -
  let ?g = "py_remove (CHR 0x22) (py_remove CHR '' '' x)"
  have "CHR '' '' \<notin> set ?g" "CHR 0x22 \<notin> set ?g" by (auto simp: py_remove_set)
  then have "py_remove (CHR 0x22) (py_remove CHR '' '' ?g) = ?g"
    by (simp add: py_remove_absent)
  then show ?thesis by (simp add: format_gene_name_def)
qed

text \<open>Claim C8, amended. For every name and every length limit that is not negative,
  formatting the formatted name again with the same limit returns it unchanged.\<close>

theorem C8_format_idempotent_nonneg:
  assumes "0 \<le> L"
  shows "format_gene_name (format_gene_name x L) L = format_gene_name x L"
proof -
  let ?g = "py_remove (CHR 0x22) (py_remove CHR '' '' x)"
  let ?k = "py_find ?g CHR '','' 6"
  let ?y = "format_gene_name x L"
  have clean: "CHR '' '' \<notin> set ?y" "CHR 0x22 \<notin> set ?y"
    using format_gene_name_set [of x L] by auto
  have hard: "py_slice_to s L = take (nat L) s" for s
    using assms by (simp add: py_slice_to_def)
  show ?thesis
  proof (cases "int (length ?g) > L - 4 \<and> ?k \<noteq> - 1")
    case True
    then have hit: "CHR '','' \<in> set (drop 6 ?g)" by (simp add: py_find_none_iff)
    let ?t = "6 + length (takeWhile (\<lambda>c. c \<noteq> CHR '','') (drop 6 ?g))"
    have k: "?k = int ?t" using py_find_some [OF hit] by simp
    let ?g3 = "take ?t ?g"
    have slice: "py_slice_to ?g ?k = ?g3"
      by (simp only: k py_slice_to_def nat_int of_nat_less_0_iff if_False)
    have y: "?y = (if int (length ?g3) > L then take (nat L) ?g3 else ?g3)"
      using True by (simp add: format_gene_name_def Let_def slice hard)
    have g3: "CHR '','' \<notin> set (drop 6 ?g3)" by (rule no_hit_after_cut)
    then have "CHR '','' \<notin> set (drop 6 ?y)"
      unfolding y by (simp add: no_hit_prefix del: take_take)
    then have "py_find ?y CHR '','' 6 = - 1" by (simp add: py_find_none_iff)
    moreover have "int (length ?y) \<le> L" unfolding y using assms by simp
    ultimately show ?thesis using clean by (intro format_gene_name_fixed)
  next
    case False
    have y: "?y = (if int (length ?g) > L then take (nat L) ?g else ?g)"
      using False by (auto simp: format_gene_name_def Let_def hard)
    show ?thesis
    proof (cases "?k = - 1")
      case True
      then have "CHR '','' \<notin> set (drop 6 ?g)" by (simp add: py_find_none_iff)
      then have "CHR '','' \<notin> set (drop 6 ?y)" unfolding y by (simp add: no_hit_prefix)
      then have "py_find ?y CHR '','' 6 = - 1" by (simp add: py_find_none_iff)
      moreover have "int (length ?y) \<le> L" unfolding y using assms by simp
      ultimately show ?thesis using clean by (intro format_gene_name_fixed)
    next
      case False
      with \<open>\<not> (int (length ?g) > L - 4 \<and> ?k \<noteq> - 1)\<close> have "int (length ?g) \<le> L - 4" by simp
      then have "?y = ?g" unfolding y by simp
      then show ?thesis by (simp add: format_gene_name_stripped)
    qed
  qed
qed

theorem C8_format_idempotent_nonneg_witness:
  "format_gene_name (format_gene_name ''ABCDEFGH,IJ KLMN'' 12) 12 = format_gene_name ''ABCDEFGH,IJ KLMN'' 12
   \<and> format_gene_name ''ABCDEFGH,IJ KLMN'' 12 = ''ABCDEFGH''"
  using C8_format_idempotent_nonneg [of 12 "''ABCDEFGH,IJ KLMN''"]
  by (simp add: format_gene_name_def py_remove_def py_find_def py_slice_to_def)

text \<open>With a negative limit the slice \<^verbatim>\<open>gene_name[:max_length]\<close> drops characters
  from the end on every call: the name \<open>ab\<close> with limit \<open>-1\<close> becomes \<open>a\<close>, and \<open>a\<close>
  becomes the empty string.\<close>

theorem C8_counterexample:
  "format_gene_name ''ab'' (- 1) = ''a''
   \<and> format_gene_name (format_gene_name ''ab'' (- 1)) (- 1) = ''''
   \<and> format_gene_name (format_gene_name ''ab'' (- 1)) (- 1) \<noteq> format_gene_name ''ab'' (- 1)"
  by (simp add: format_gene_name_def py_remove_def py_find_def py_slice_to_def)

text \<open>The gene name of scenario C with limit 12 does not come out as \<open>BRCA1\<close>.\<close>

theorem C7_counterexample:
  \<open>format_gene_name (''BRCA1, isoform '' @ [CHR 0x22] @ ''X'' @ [CHR 0x22]) 12 \<noteq> ''BRCA1''\<close>
  by (simp add: format_gene_name_def py_remove_def py_find_def py_slice_to_def)

text \<open>Claim C7, amended. The gene name \<^verbatim>\<open>BRCA1, isoform "X"\<close> with limit 12 is formatted
  to \<open>BRCA1,isofor\<close>: without spaces and double quotes it is \<open>BRCA1,isoformX\<close>, of length
  14; its only comma stands at position 5, so the search from position 6 finds none and
  the name is not cut at a comma; being longer than 12 it is cut to its first 12
  characters.\<close>

theorem C7_format_example:
  \<open>format_gene_name (''BRCA1, isoform '' @ [CHR 0x22] @ ''X'' @ [CHR 0x22]) 12 = ''BRCA1,isofor''
   \<and> py_remove (CHR 0x22) (py_remove CHR '' '' (''BRCA1, isoform '' @ [CHR 0x22] @ ''X'' @ [CHR 0x22]))
       = ''BRCA1,isoformX''
   \<and> ''BRCA1,isoformX'' ! 5 = CHR '',''
   \<and> py_find ''BRCA1,isoformX'' CHR '','' 6 = - 1
   \<and> py_find ''BRCA1,isoformX'' CHR '','' 5 = 5
   \<and> length ''BRCA1,isoformX'' = 14\<close>
  by (simp add: format_gene_name_def py_remove_def py_find_def py_slice_to_def)

subsection \<open>The order of the columns\<close>

lemma insort_key_ties:
  "sorted_wrt (\<lambda>a b. f a = f b \<longrightarrow> a \<le> b) ys \<Longrightarrow> \<forall>y\<in>set ys. x \<le> y \<Longrightarrow>
   sorted_wrt (\<lambda>a b. f a = f b \<longrightarrow> a \<le> b) (insort_key f x ys)"
  by (induction ys) (auto simp: set_insort_key)

lemma sort_key_ties_ascending:
  "sorted xs \<Longrightarrow> sorted_wrt (\<lambda>a b. f a = f b \<longrightarrow> a \<le> b) (sort_key f xs)"
proof (induction xs)
  case Nil
  show ?case by simp
next
  case (Cons x xs)
  then have "sorted_wrt (\<lambda>a b. f a = f b \<longrightarrow> a \<le> b) (sort_key f xs)"
    and "\<forall>y\<in>set (sort_key f xs). x \<le> y" by simp_all
  then show ?case by (simp add: insort_key_ties)
qed

lemma sort_key_pair_sorted:
  fixes p :: "nat \<Rightarrow> int" and l :: "nat \<Rightarrow> 'b::linorder"
  shows "sorted_wrt (\<lambda>a b. p b < p a \<or> (p a = p b \<and> l a \<le> l b))
           (sort_key (\<lambda>k. (- p k, l k)) xs)"
proof -
  have "sorted (map (\<lambda>k. (- p k, l k)) (sort_key (\<lambda>k. (- p k, l k)) xs))"
    by (rule sorted_sort_key)
  then have "sorted_wrt (\<lambda>a b. (- p a, l a) \<le> (- p b, l b)) (sort_key (\<lambda>k. (- p k, l k)) xs)"
    by (simp only: sorted_map)
  then show ?thesis
    by (rule sorted_wrt_mono_rel [rotated]) (auto simp: less_eq_prod_simp)
qed

lemma sort_key_pair_stable:
  fixes p :: "nat \<Rightarrow> int" and l :: "nat \<Rightarrow> 'b::linorder"
  shows "filter (\<lambda>k. p k = q \<and> l k = m) (sort_key (\<lambda>k. (- p k, l k)) xs) =
         filter (\<lambda>k. p k = q \<and> l k = m) xs"
proof -
  have "(\<lambda>k. p k = q \<and> l k = m) = (\<lambda>k. (- p k, l k) = (- q, m))" by auto
  then show ?thesis by (simp only: sort_key_stable)
qed

lemma named_order:
  fixes names :: "string list" and ps :: "int list"
  assumes "order = sort_key (\<lambda>k. (- (ps ! k), names ! k)) ds"
  shows "length order = length ds \<and> set order = set ds
    \<and> sorted_wrt (\<lambda>a b. ps ! b < ps ! a \<or> (ps ! a = ps ! b \<and> names ! a \<le> names ! b)) order
    \<and> (\<forall>p l. filter (\<lambda>k. ps ! k = p \<and> names ! k = l) order
                = filter (\<lambda>k. ps ! k = p \<and> names ! k = l) ds)
    \<and> (sorted ds \<longrightarrow>
          sorted_wrt (\<lambda>a b. ps ! a = ps ! b \<and> names ! a = names ! b \<longrightarrow> a \<le> b) order)"
proof -
  have "sorted_wrt (\<lambda>a b. ps ! a = ps ! b \<and> names ! a = names ! b \<longrightarrow> a \<le> b) order"
    if "sorted ds"
  proof -
    have "sorted_wrt (\<lambda>a b. (- (ps ! a), names ! a) = (- (ps ! b), names ! b) \<longrightarrow> a \<le> b) order"
      unfolding assms using that by (rule sort_key_ties_ascending)
    then show ?thesis by (rule sorted_wrt_mono_rel [rotated]) auto
  qed
  then show ?thesis
    unfolding assms
    using sort_key_pair_sorted [of "\<lambda>k. ps ! k" "\<lambda>k. names ! k" ds]
      sort_key_pair_stable [of "\<lambda>k. ps ! k" _ "\<lambda>k. names ! k" _ ds]
    by simp
qed

lemma unnamed_order:
  fixes ps :: "int list"
  assumes "order = sort_key (\<lambda>k. (- (ps ! k), 0 :: int)) ds"
  shows "length order = length ds \<and> set order = set ds
    \<and> sorted_wrt (\<lambda>a b. ps ! b \<le> ps ! a) order
    \<and> (\<forall>p. filter (\<lambda>k. ps ! k = p) order = filter (\<lambda>k. ps ! k = p) ds)
    \<and> (sorted ds \<longrightarrow> sorted_wrt (\<lambda>a b. ps ! a = ps ! b \<longrightarrow> a \<le> b) order)"
proof -
  have a: "sorted_wrt (\<lambda>a b. ps ! a = ps ! b \<longrightarrow> a \<le> b) order" if "sorted ds"
  proof -
    have "sorted_wrt (\<lambda>a b. (- (ps ! a), 0 :: int) = (- (ps ! b), 0) \<longrightarrow> a \<le> b) order"
      unfolding assms using that by (rule sort_key_ties_ascending)
    then show ?thesis by (rule sorted_wrt_mono_rel [rotated]) auto
  qed
  have b: "sorted_wrt (\<lambda>a b. ps ! b \<le> ps ! a) order"
    using sort_key_pair_sorted [of "\<lambda>k. ps ! k" "\<lambda>k. 0 :: int" ds] unfolding assms
    by (rule sorted_wrt_mono_rel [rotated]) auto
  have c: "filter (\<lambda>k. ps ! k = p) order = filter (\<lambda>k. ps ! k = p) ds" for p
    using sort_key_pair_stable [of "\<lambda>k. ps ! k" p "\<lambda>k. 0 :: int" 0 ds] unfolding assms
    by simp
  show ?thesis using a b c by (simp add: assms)
qed

text \<open>Claim C3, amended. For every list of displayed mutations the columns stand in
  descending priority; columns of equal priority stand in ascending order of their names,
  compared character code by character code, when names are supplied (hinton with column
  labels; clustered_table always, by the gene names of the patient). The sort is stable:
  columns that tie in priority and name, and all columns of equal priority when hinton
  gets no names, keep their relative order of the displayed list, which is ascending
  mutation index when that list is ascending, as the default list of all mutations is.
  The order is a function of the input, so the same input yields the same order.\<close>

theorem C3_display_order:
  fixes labels gene_names :: "string list"
  shows
  "(hinton_order ps (Some labels) ds = Inr order \<longrightarrow>
      length order = length ds \<and> set order = set ds
    \<and> sorted_wrt (\<lambda>a b. ps ! b < ps ! a \<or> (ps ! a = ps ! b \<and> labels ! a \<le> labels ! b)) order
    \<and> (\<forall>p l. filter (\<lambda>k. ps ! k = p \<and> labels ! k = l) order
                = filter (\<lambda>k. ps ! k = p \<and> labels ! k = l) ds)
    \<and> (sorted ds \<longrightarrow>
          sorted_wrt (\<lambda>a b. ps ! a = ps ! b \<and> labels ! a = labels ! b \<longrightarrow> a \<le> b) order))
   \<and> (hinton_order ps None ds = Inr order \<longrightarrow>
      length order = length ds \<and> set order = set ds
    \<and> sorted_wrt (\<lambda>a b. ps ! b \<le> ps ! a) order
    \<and> (\<forall>p. filter (\<lambda>k. ps ! k = p) order = filter (\<lambda>k. ps ! k = p) ds)
    \<and> (sorted ds \<longrightarrow> sorted_wrt (\<lambda>a b. ps ! a = ps ! b \<longrightarrow> a \<le> b) order))
   \<and> (clustered_order ps gene_names ds = Inr order \<longrightarrow>
      length order = length ds \<and> set order = set ds
    \<and> sorted_wrt (\<lambda>a b. ps ! b < ps ! a
                          \<or> (ps ! a = ps ! b \<and> gene_names ! a \<le> gene_names ! b)) order
    \<and> (\<forall>p l. filter (\<lambda>k. ps ! k = p \<and> gene_names ! k = l) order
                = filter (\<lambda>k. ps ! k = p \<and> gene_names ! k = l) ds)
    \<and> (sorted ds \<longrightarrow>
          sorted_wrt (\<lambda>a b. ps ! a = ps ! b \<and> gene_names ! a = gene_names ! b \<longrightarrow> a \<le> b)
            order))"
proof -
  have a: "order = sort_key (\<lambda>k. (- (ps ! k), labels ! k)) ds"
    if "hinton_order ps (Some labels) ds = Inr order"
    using that by (simp add: hinton_order_def split: if_splits)
  have b: "order = sort_key (\<lambda>k. (- (ps ! k), 0 :: int)) ds"
    if "hinton_order ps None ds = Inr order"
    using that by (simp add: hinton_order_def split: if_splits)
  have c: "order = sort_key (\<lambda>k. (- (ps ! k), gene_names ! k)) ds"
    if "clustered_order ps gene_names ds = Inr order"
    using that by (simp add: clustered_order_def split: if_splits)
  show ?thesis
    by (intro conjI impI named_order unnamed_order a b c)
qed


theorem C3_display_order_witness:
  "hinton_order [4, 12, 4, 4] (Some [''b'', ''z'', ''a'', ''B'']) [0, 1, 2, 3] = Inr [1, 3, 2, 0]
   \<and> hinton_order [4, 12, 4] None [0, 1, 2] = Inr [1, 0, 2]
   \<and> clustered_order [4, 12, 4] [''b'', ''z'', ''a''] [0, 1, 2] = Inr [1, 2, 0]
   \<and> sorted_wrt (\<lambda>a b. [4, 12, 4 :: int] ! a = [4, 12, 4] ! b \<longrightarrow> a \<le> b) [1, 0, 2 :: nat]"
proof -
  have h1: "hinton_order [4, 12, 4, 4] (Some [''b'', ''z'', ''a'', ''B'']) [0, 1, 2, 3]
      = Inr [1, 3, 2, 0]"
    by (simp add: hinton_order_def less_eq_char_def less_char_def)
  have h2: "hinton_order [4, 12, 4] None [0, 1, 2] = Inr [1, 0, 2]"
    by (simp add: hinton_order_def)
  have h3: "clustered_order [4, 12, 4] [''b'', ''z'', ''a''] [0, 1, 2] = Inr [1, 2, 0]"
    by (simp add: clustered_order_def less_eq_char_def less_char_def)
  have s: "sorted [0, 1, 2 :: nat]" by simp
  from C3_display_order [of "[4, 12, 4]" "[''b'', ''z'', ''a'']" "[0, 1, 2]" "[1, 0, 2]"
      "[''b'', ''z'', ''a'']"] h2 s
  have "sorted_wrt (\<lambda>a b. [4, 12, 4 :: int] ! a = [4, 12, 4] ! b \<longrightarrow> a \<le> b) [1, 0, 2 :: nat]"
    by blast
  with h1 h2 h3 show ?thesis by blast
qed

text \<open>Without names, two mutations of equal priority displayed as the list \<open>[1, 0]\<close>
  stay in that order: the tie is not broken by ascending mutation index.\<close>

theorem C3_counterexample:
  "hinton_priorities \<lparr>POS_UNKNOWN = - 2, NEG_UNKNOWN = - 1\<rparr> [[0], [0]] [1, 0] = Inr [0, 0]
   \<and> hinton_order [0, 0] None [1, 0] = Inr [1, 0]"
  by (simp add: hinton_priorities_def py_index_def priority_term_def hinton_order_def enumerate_eq_zip)

subsection \<open>Rows of the clustered table\<close>

lemma clustered_column_loop_eq:
  "clustered_column_loop st x row lo is =
     (if list_all (\<lambda>i. i < length lo \<and> lo ! i < length row) is
      then Inr (map (\<lambda>i. cell_rect st x (length row) i (row ! (lo ! i))) is)
      else Inl IndexError)"
  by (induction "is") (auto simp: py_index_def)

lemma clustered_cells_eq:
  "clustered_cells st data lo xs =
     (if list_all (\<lambda>(x, m). m < length data \<and> leaf_order_fits lo (data ! m)) xs
      then Inr (map (\<lambda>(x, m). map (\<lambda>i. cell_rect st x (length (data ! m)) i (data ! m ! (lo ! i)))
                                [0..<length (data ! m)]) xs)
      else Inl IndexError)"
proof (induction xs)
  case Nil
  show ?case by simp
next
  case (Cons a xs)
  obtain x m where a: "a = (x, m)" by (cases a)
  have fits: "leaf_order_fits lo row \<longleftrightarrow>
      list_all (\<lambda>i. i < length lo \<and> lo ! i < length row) [0..<length row]" for row
    by (auto simp: leaf_order_fits_def list_all_iff)
  show ?case
    unfolding a using Cons.IH
    by (simp add: py_index_def clustered_column_loop_eq fits)
qed

lemma clustered_row_texts_eq:
  "clustered_row_texts rl xs =
     (if list_all (\<lambda>(i, sa_idx). sa_idx < length rl) xs
      then Inr (map (\<lambda>(i, sa_idx).
                  \<lparr>text_xy = (- 2, (4 + 1) * (real (length rl) - real i - 1) + 0.5),
                   text_s = py_replace CHR ''_'' CHR '' '' (rl ! sa_idx)\<rparr>) xs)
      else Inl IndexError)"
  by (induction xs) (auto simp: py_index_def)

lemma clustered_table_InrD:
  assumes "clustered_table st data samples gene_names leaves row_labels column_labels dm = Inr fig"
  shows "\<exists>priorities order.
      clustered_priorities st data leaves (displayed_or_all data dm) = Inr priorities
    \<and> clustered_order priorities gene_names (displayed_or_all data dm) = Inr order
    \<and> clustered_cells st data (leave_ordering_of leaves) (enumerate 0 order) = Inr (columns fig)
    \<and> (case row_labels of None \<Rightarrow> Inr []
        | Some rl \<Rightarrow> clustered_row_texts rl (enumerate 0 (rev leaves))) = Inr (crow_texts fig)"
  using assms unfolding clustered_table_def Let_def
  by (auto split: sum.splits)


lemma scenario_B:
  assumes "POS_UNKNOWN st < 0" "NEG_UNKNOWN st < 0"
  shows "clustered_table st [[1, 0, POS_UNKNOWN st]] 3 [''TP53''] [1, 0, 2]
           (Some [''A'', ''B'', ''C'']) None None =
         Inr \<lparr>cfigsize = (29 / 20, 14 / 20),
              columns = [[\<lparr>xy = (0, 10), rect_width = 2, rect_height = 4,
                            facecolor = RGB 0.9 0.75 0.75, edgecolor = Named ''black''\<rparr>,
                          \<lparr>xy = (0, 5), rect_width = 2, rect_height = 4,
                            facecolor = Named ''blue'', edgecolor = Named ''black''\<rparr>,
                          \<lparr>xy = (0, 0), rect_width = 2, rect_height = 4,
                            facecolor = RGB 1.0 0.3 0.3, edgecolor = Named ''black''\<rparr>]],
              crow_texts = [\<lparr>text_xy = (- 2, 10.5), text_s = ''C''\<rparr>,
                            \<lparr>text_xy = (- 2, 5.5), text_s = ''A''\<rparr>,
                            \<lparr>text_xy = (- 2, 0.5), text_s = ''B''\<rparr>],
              ccolumn_texts = []\<rparr>"
proof -
  let ?data = "[[1, 0, POS_UNKNOWN st]]"
  have u: "[0..<3] = [0, 1, 2]" "[0..<1] = [0]" by (simp_all add: upt_rec)
  have d: "displayed_or_all ?data None = [0]" by (simp add: displayed_or_all_def)
  have lo: "leave_ordering_of [1, 0, 2] = [2, 0, 1]" by (simp add: leave_ordering_of_def)
  have p: "clustered_priorities st ?data [1, 0, 2] [0] = Inr [28]"
    using assms
    by (simp add: clustered_priorities_def leave_ordering_of_def py_index_def priority_term_def u)
  have or: "clustered_order [28] [''TP53''] [0] = Inr [0]"
    by (simp add: clustered_order_def)
  have c: "clustered_cells st ?data [2, 0, 1] (enumerate 0 [0]) =
      Inr [[cell_rect st 0 3 0 (POS_UNKNOWN st), cell_rect st 0 3 1 1, cell_rect st 0 3 2 0]]"
    by (simp add: enumerate_eq_zip py_index_def u numeral_3_eq_3 numeral_2_eq_2)
  have r: "clustered_row_texts [''A'', ''B'', ''C''] (enumerate 0 (rev [1, 0, 2])) =
      Inr [\<lparr>text_xy = (- 2, 10.5), text_s = ''C''\<rparr>,
           \<lparr>text_xy = (- 2, 5.5), text_s = ''A''\<rparr>,
           \<lparr>text_xy = (- 2, 0.5), text_s = ''B''\<rparr>]"
    by (simp add: enumerate_eq_zip py_index_def u py_replace_def)
  have col: "cell_rect st 0 3 0 (POS_UNKNOWN st) =
        \<lparr>xy = (0, 10), rect_width = 2, rect_height = 4,
          facecolor = RGB 0.9 0.75 0.75, edgecolor = Named ''black''\<rparr>"
      "cell_rect st 0 3 1 1 =
        \<lparr>xy = (0, 5), rect_width = 2, rect_height = 4,
          facecolor = Named ''blue'', edgecolor = Named ''black''\<rparr>"
      "cell_rect st 0 3 2 0 =
        \<lparr>xy = (0, 0), rect_width = 2, rect_height = 4,
          facecolor = RGB 1.0 0.3 0.3, edgecolor = Named ''black''\<rparr>"
    using assms by (simp_all add: cell_rect_def cell_color_def)
  have i0: "py_index ?data 0 = Inr [1, 0, POS_UNKNOWN st]" by (simp add: py_index_def)
  have pf: "plt_figure
        (((if Some [''A'', ''B'', ''C''] \<noteq> None then 2 + 20 else 0)
            + (2 + real (length [0 :: nat]) * 2) + real 3 * 2 / 2.0) / 20.0,
         real_of_int (int (length [1, 0, POS_UNKNOWN st]) * (4 + 1) - 1
            + (if (None :: string list option) \<noteq> None then 0 + 20 else 0)) / 20.0) =
      Inr (((if Some [''A'', ''B'', ''C''] \<noteq> None then 2 + 20 else 0)
            + (2 + real (length [0 :: nat]) * 2) + real 3 * 2 / 2.0) / 20.0,
           real_of_int (int (length [1, 0, POS_UNKNOWN st]) * (4 + 1) - 1
            + (if (None :: string list option) \<noteq> None then 0 + 20 else 0)) / 20.0)"
    by (simp add: plt_figure_def)
  have "clustered_table st ?data 3 [''TP53''] [1, 0, 2] (Some [''A'', ''B'', ''C'']) None None =
      Inr \<lparr>cfigsize = (((if Some [''A'', ''B'', ''C''] \<noteq> None then 2 + 20 else 0)
                          + (2 + real (length [0 :: nat]) * 2) + real 3 * 2 / 2.0) / 20.0,
                        real_of_int (int (length [1, 0, POS_UNKNOWN st]) * (4 + 1) - 1
                          + (if (None :: string list option) \<noteq> None then 0 + 20 else 0)) / 20.0),
           columns = [[cell_rect st 0 3 0 (POS_UNKNOWN st), cell_rect st 0 3 1 1,
                       cell_rect st 0 3 2 0]],
           crow_texts = [\<lparr>text_xy = (- 2, 10.5), text_s = ''C''\<rparr>,
                         \<lparr>text_xy = (- 2, 5.5), text_s = ''A''\<rparr>,
                         \<lparr>text_xy = (- 2, 0.5), text_s = ''B''\<rparr>],
           ccolumn_texts = []\<rparr>"
    by (simp only: clustered_table_def Let_def d lo i0 pf p or c r sum.case option.case)
  then show ?thesis unfolding col by simp
qed


lemma clustered_rows:
  assumes "clustered_table st data samples gene_names leaves row_labels column_labels dm = Inr fig"
  shows "\<exists>priorities order.
      clustered_priorities st data leaves (displayed_or_all data dm) = Inr priorities
    \<and> clustered_order priorities gene_names (displayed_or_all data dm) = Inr order
    \<and> length (columns fig) = length order
    \<and> (\<forall>x<length order.
          length (columns fig ! x) = length (data ! (order ! x))
        \<and> (\<forall>i<length (data ! (order ! x)).
              xy (columns fig ! x ! i)
                = (int x * 2, (4 + 1) * (int (length (data ! (order ! x))) - int i - 1))
            \<and> facecolor (columns fig ! x ! i)
                = cell_color st (data ! (order ! x) ! (leave_ordering_of leaves ! i))))
    \<and> (\<forall>rl. row_labels = Some rl \<longrightarrow>
          length (crow_texts fig) = length leaves
        \<and> (\<forall>i<length leaves.
              crow_texts fig ! i =
                \<lparr>text_xy = (- 2, (4 + 1) * (real (length rl) - real i - 1) + 0.5),
                 text_s = py_replace CHR ''_'' CHR '' '' (rl ! (leave_ordering_of leaves ! i))\<rparr>))"
proof -
  from clustered_table_InrD [OF assms] obtain priorities order where
    p: "clustered_priorities st data leaves (displayed_or_all data dm) = Inr priorities" and
    or: "clustered_order priorities gene_names (displayed_or_all data dm) = Inr order" and
    c: "clustered_cells st data (leave_ordering_of leaves) (enumerate 0 order) = Inr (columns fig)"
    and r: "(case row_labels of None \<Rightarrow> Inr []
        | Some rl \<Rightarrow> clustered_row_texts rl (enumerate 0 (rev leaves))) = Inr (crow_texts fig)"
    by blast
  let ?lo = "leave_ordering_of leaves"
  from c have cols: "columns fig =
      map (\<lambda>(x, m). map (\<lambda>i. cell_rect st x (length (data ! m)) i (data ! m ! (?lo ! i)))
                        [0..<length (data ! m)]) (enumerate 0 order)"
    by (simp add: clustered_cells_eq split: if_splits)
  have len: "length (columns fig) = length order" by (simp add: cols)
  have col: "columns fig ! x =
      map (\<lambda>i. cell_rect st x (length (data ! (order ! x))) i (data ! (order ! x) ! (?lo ! i)))
        [0..<length (data ! (order ! x))]" if "x < length order" for x
    using that by (simp add: cols nth_enumerate_eq)
  have cells: "length (columns fig ! x) = length (data ! (order ! x))
        \<and> (\<forall>i<length (data ! (order ! x)).
              xy (columns fig ! x ! i)
                = (int x * 2, (4 + 1) * (int (length (data ! (order ! x))) - int i - 1))
            \<and> facecolor (columns fig ! x ! i)
                = cell_color st (data ! (order ! x) ! (?lo ! i)))" if "x < length order" for x
    by (simp add: col [OF that] cell_rect_def)
  have texts: "length (crow_texts fig) = length leaves
        \<and> (\<forall>i<length leaves.
              crow_texts fig ! i =
                \<lparr>text_xy = (- 2, (4 + 1) * (real (length rl) - real i - 1) + 0.5),
                 text_s = py_replace CHR ''_'' CHR '' '' (rl ! (?lo ! i))\<rparr>)"
    if "row_labels = Some rl" for rl
  proof -
    from r that have "crow_texts fig =
        map (\<lambda>(i, sa_idx).
                  \<lparr>text_xy = (- 2, (4 + 1) * (real (length rl) - real i - 1) + 0.5),
                   text_s = py_replace CHR ''_'' CHR '' '' (rl ! sa_idx)\<rparr>)
          (enumerate 0 (rev leaves))"
      by (simp add: clustered_row_texts_eq split: if_splits)
    then show ?thesis by (simp add: nth_enumerate_eq leave_ordering_of_def)
  qed
  from p or len cells texts show ?thesis by blast
qed

text \<open>Claim C4. Let \<open>leave_ordering\<close> be the leaf order of the dendrogram read from the
  top row down (the code obtains it by reversing the list \<^verbatim>\<open>den['leaves']\<close>, which scipy
  gives from the bottom up). Whenever clustered_table builds its table, the rectangle at
  row position \<open>i\<close> of every column, drawn at height \<open>5 * (S - i - 1)\<close>, is coloured by
  the state of sample \<open>leave_ordering ! i\<close>, not by the state of the sample declared at
  index \<open>i\<close>, and the text of row \<open>i\<close> is the display name of sample
  \<open>leave_ordering ! i\<close> with its underscores shown as blanks. With the declared samples
  A, B, C (A present, B absent, C ambiguous) and the leaf order C, A, B the top row shows
  the ambiguous state of C and reads C, the second shows A and reads A, the third shows
  B and reads B.\<close>

theorem C4_rows_follow_leaf_order:
  "(clustered_table st data samples gene_names leaves row_labels column_labels dm = Inr fig \<longrightarrow>
     (\<exists>priorities order.
        clustered_priorities st data leaves (displayed_or_all data dm) = Inr priorities
      \<and> clustered_order priorities gene_names (displayed_or_all data dm) = Inr order
      \<and> length (columns fig) = length order
      \<and> (\<forall>x<length order.
            length (columns fig ! x) = length (data ! (order ! x))
          \<and> (\<forall>i<length (data ! (order ! x)).
                xy (columns fig ! x ! i)
                  = (int x * 2, (4 + 1) * (int (length (data ! (order ! x))) - int i - 1))
              \<and> facecolor (columns fig ! x ! i)
                  = cell_color st (data ! (order ! x) ! (leave_ordering_of leaves ! i))))
      \<and> (\<forall>rl. row_labels = Some rl \<longrightarrow>
            length (crow_texts fig) = length leaves
          \<and> (\<forall>i<length leaves.
                crow_texts fig ! i =
                  \<lparr>text_xy = (- 2, (4 + 1) * (real (length rl) - real i - 1) + 0.5),
                   text_s = py_replace CHR ''_'' CHR '' ''
                              (rl ! (leave_ordering_of leaves ! i))\<rparr>))))
   \<and> (POS_UNKNOWN st < 0 \<and> NEG_UNKNOWN st < 0 \<longrightarrow>
        leave_ordering_of [1, 0, 2] = [2, 0, 1]
      \<and> clustered_table st [[1, 0, POS_UNKNOWN st]] 3 [''TP53''] [1, 0, 2]
           (Some [''A'', ''B'', ''C'']) None None =
         Inr \<lparr>cfigsize = (29 / 20, 14 / 20),
              columns = [[\<lparr>xy = (0, 10), rect_width = 2, rect_height = 4,
                            facecolor = RGB 0.9 0.75 0.75, edgecolor = Named ''black''\<rparr>,
                          \<lparr>xy = (0, 5), rect_width = 2, rect_height = 4,
                            facecolor = Named ''blue'', edgecolor = Named ''black''\<rparr>,
                          \<lparr>xy = (0, 0), rect_width = 2, rect_height = 4,
                            facecolor = RGB 1.0 0.3 0.3, edgecolor = Named ''black''\<rparr>]],
              crow_texts = [\<lparr>text_xy = (- 2, 10.5), text_s = ''C''\<rparr>,
                            \<lparr>text_xy = (- 2, 5.5), text_s = ''A''\<rparr>,
                            \<lparr>text_xy = (- 2, 0.5), text_s = ''B''\<rparr>],
              ccolumn_texts = []\<rparr>)"
proof (rule conjI)
  show "clustered_table st data samples gene_names leaves row_labels column_labels dm = Inr fig \<longrightarrow>
     (\<exists>priorities order.
        clustered_priorities st data leaves (displayed_or_all data dm) = Inr priorities
      \<and> clustered_order priorities gene_names (displayed_or_all data dm) = Inr order
      \<and> length (columns fig) = length order
      \<and> (\<forall>x<length order.
            length (columns fig ! x) = length (data ! (order ! x))
          \<and> (\<forall>i<length (data ! (order ! x)).
                xy (columns fig ! x ! i)
                  = (int x * 2, (4 + 1) * (int (length (data ! (order ! x))) - int i - 1))
              \<and> facecolor (columns fig ! x ! i)
                  = cell_color st (data ! (order ! x) ! (leave_ordering_of leaves ! i))))
      \<and> (\<forall>rl. row_labels = Some rl \<longrightarrow>
            length (crow_texts fig) = length leaves
          \<and> (\<forall>i<length leaves.
                crow_texts fig ! i =
                  \<lparr>text_xy = (- 2, (4 + 1) * (real (length rl) - real i - 1) + 0.5),
                   text_s = py_replace CHR ''_'' CHR '' ''
                              (rl ! (leave_ordering_of leaves ! i))\<rparr>)))"
    by (rule impI) (rule clustered_rows)
next
  have "leave_ordering_of [1, 0, 2] = [2, 0, 1]" by (simp add: leave_ordering_of_def)
  then show "POS_UNKNOWN st < 0 \<and> NEG_UNKNOWN st < 0 \<longrightarrow>
        leave_ordering_of [1, 0, 2] = [2, 0, 1]
      \<and> clustered_table st [[1, 0, POS_UNKNOWN st]] 3 [''TP53''] [1, 0, 2]
           (Some [''A'', ''B'', ''C'']) None None =
         Inr \<lparr>cfigsize = (29 / 20, 14 / 20),
              columns = [[\<lparr>xy = (0, 10), rect_width = 2, rect_height = 4,
                            facecolor = RGB 0.9 0.75 0.75, edgecolor = Named ''black''\<rparr>,
                          \<lparr>xy = (0, 5), rect_width = 2, rect_height = 4,
                            facecolor = Named ''blue'', edgecolor = Named ''black''\<rparr>,
                          \<lparr>xy = (0, 0), rect_width = 2, rect_height = 4,
                            facecolor = RGB 1.0 0.3 0.3, edgecolor = Named ''black''\<rparr>]],
              crow_texts = [\<lparr>text_xy = (- 2, 10.5), text_s = ''C''\<rparr>,
                            \<lparr>text_xy = (- 2, 5.5), text_s = ''A''\<rparr>,
                            \<lparr>text_xy = (- 2, 0.5), text_s = ''B''\<rparr>],
              ccolumn_texts = []\<rparr>"
    using scenario_B [of st] by blast
qed


theorem C4_rows_follow_leaf_order_witness:
  "\<exists>fig. clustered_table \<lparr>POS_UNKNOWN = - 2, NEG_UNKNOWN = - 1\<rparr>
            [[1, 0, POS_UNKNOWN \<lparr>POS_UNKNOWN = - 2, NEG_UNKNOWN = - 1\<rparr>]] 3 [''TP53''] [1, 0, 2]
            (Some [''A'', ''B'', ''C'']) None None = Inr fig
      \<and> (\<exists>priorities order.
            clustered_priorities \<lparr>POS_UNKNOWN = - 2, NEG_UNKNOWN = - 1\<rparr>
              [[1, 0, POS_UNKNOWN \<lparr>POS_UNKNOWN = - 2, NEG_UNKNOWN = - 1\<rparr>]] [1, 0, 2]
              (displayed_or_all [[1, 0, POS_UNKNOWN \<lparr>POS_UNKNOWN = - 2, NEG_UNKNOWN = - 1\<rparr>]] None)
              = Inr priorities
          \<and> clustered_order priorities [''TP53'']
              (displayed_or_all [[1, 0, POS_UNKNOWN \<lparr>POS_UNKNOWN = - 2, NEG_UNKNOWN = - 1\<rparr>]] None)
              = Inr order
          \<and> length (columns fig) = length order)"
proof -
  let ?st = "\<lparr>POS_UNKNOWN = - 2, NEG_UNKNOWN = - 1\<rparr>"
  let ?D = "[[1, 0, POS_UNKNOWN ?st]]"
  let ?F = "\<lparr>cfigsize = (29 / 20, 14 / 20),
              columns = [[\<lparr>xy = (0, 10), rect_width = 2, rect_height = 4,
                            facecolor = RGB 0.9 0.75 0.75, edgecolor = Named ''black''\<rparr>,
                          \<lparr>xy = (0, 5), rect_width = 2, rect_height = 4,
                            facecolor = Named ''blue'', edgecolor = Named ''black''\<rparr>,
                          \<lparr>xy = (0, 0), rect_width = 2, rect_height = 4,
                            facecolor = RGB 1.0 0.3 0.3, edgecolor = Named ''black''\<rparr>]],
              crow_texts = [\<lparr>text_xy = (- 2, 10.5), text_s = ''C''\<rparr>,
                            \<lparr>text_xy = (- 2, 5.5), text_s = ''A''\<rparr>,
                            \<lparr>text_xy = (- 2, 0.5), text_s = ''B''\<rparr>],
              ccolumn_texts = []\<rparr>"
  note inst = C4_rows_follow_leaf_order [of ?st ?D 3 "[''TP53'']" "[1, 0, 2]"
      "Some [''A'', ''B'', ''C'']" None None ?F]
  have s: "POS_UNKNOWN ?st < 0 \<and> NEG_UNKNOWN ?st < 0" by simp
  from inst s have h: "clustered_table ?st ?D 3 [''TP53''] [1, 0, 2]
      (Some [''A'', ''B'', ''C'']) None None = Inr ?F" by blast
  from inst h have "\<exists>priorities order.
        clustered_priorities ?st ?D [1, 0, 2] (displayed_or_all ?D None) = Inr priorities
      \<and> clustered_order priorities [''TP53''] (displayed_or_all ?D None) = Inr order
      \<and> length (columns ?F) = length order" by blast
  with h show ?thesis by blast
qed

subsection \<open>Degenerate inputs\<close>

lemma hinton_priorities_loop_ok:
  "list_all (\<lambda>k. k < length data) ds \<Longrightarrow> length ps = length data \<Longrightarrow>
   \<exists>ps'. hinton_priorities_loop st data ds ps = Inr ps' \<and> length ps' = length data"
  by (induction ds arbitrary: ps) (auto simp: py_index_def)

lemma hinton_order_ok:
  assumes "length ps = length data" "list_all (\<lambda>k. k < length data) ds"
    and "case column_labels of None \<Rightarrow> True | Some labels \<Rightarrow> list_all (\<lambda>k. k < length labels) ds"
  shows "\<exists>order. hinton_order ps column_labels ds = Inr order
           \<and> set order = set ds \<and> length order = length ds"
  using assms by (cases column_labels) (auto simp: hinton_order_def list_all_iff)

lemma hinton_cells_empty_rows:
  "list_all (\<lambda>row. row = []) data \<Longrightarrow> list_all (\<lambda>(x, m). m < length data) xs \<Longrightarrow>
   hinton_cells st data xs = Inr []"
  by (induction xs) (auto simp: py_index_def hinton_column_def list_all_iff enumerate_eq_zip)

lemma hinton_column_texts_ok:
  "list_all (\<lambda>(x, m). m < length data \<and> m < length labels) xs \<Longrightarrow>
   \<exists>ts. hinton_column_texts data labels xs = Inr ts \<and> length ts = length xs"
  by (induction xs) (auto simp: py_index_def)

lemma enumerate_all:
  "list_all (\<lambda>(x, m). P m) (enumerate n xs) \<longleftrightarrow> list_all P xs"
  by (induction xs arbitrary: n) auto

lemma hinton_nothing_displayed:
  assumes "data \<noteq> []" and "data ! 0 \<noteq> [] \<or> column_labels \<noteq> None"
  shows "hinton st data row_labels column_labels (Some []) =
     Inr \<lparr>figsize = (real_of_int (if row_labels \<noteq> None then 2 + 20 else 0) / 20,
                     real_of_int (int (length (data ! 0)) * (4 + 1) - 1
                                  + (if column_labels \<noteq> None then 0 + 20 else 0)) / 20),
          patches = [],
          row_texts = (case row_labels of None \<Rightarrow> [] | Some rl \<Rightarrow> hinton_row_texts rl),
          column_texts = []\<rparr>"
proof -
  have i0: "py_index data 0 = Inr (data ! 0)" using assms(1) by (simp add: py_index_def)
  have p: "hinton_priorities st data [] = Inr (replicate (length data) 0)"
    by (simp add: hinton_priorities_def)
  have o: "hinton_order ps cl [] = Inr []" for ps cl
    by (cases cl) (simp_all add: hinton_order_def)
  have len: "column_labels = None \<Longrightarrow> 0 < length (data ! 0)"
    using assms(2) by simp
  show ?thesis
  proof (cases column_labels)
    case None
    have "Suc 0 \<le> length (data ! 0)"
      using len None by (cases "data ! 0") simp_all
    then show ?thesis
      using None by (simp add: hinton_def displayed_or_all_def Let_def i0 p o plt_figure_def)
  next
    case (Some labels)
    then show ?thesis
      by (simp add: hinton_def displayed_or_all_def Let_def i0 p o plt_figure_def)
  qed
qed

lemma hinton_no_samples_labelled:
  assumes "data \<noteq> []" and rows: "list_all (\<lambda>row. row = []) data"
    and ds: "list_all (\<lambda>k. k < length data) (displayed_or_all data dm)"
    and ls: "list_all (\<lambda>k. k < length labels) (displayed_or_all data dm)"
  shows "\<exists>fig. hinton st data row_labels (Some labels) dm = Inr fig \<and> patches fig = []
           \<and> snd (figsize fig) = 19 / 20"
proof -
  let ?ds = "displayed_or_all data dm"
  have i0: "py_index data 0 = Inr []"
    using assms(1) rows by (cases data) (simp_all add: py_index_def)
  from hinton_priorities_loop_ok [OF ds, of "replicate (length data) 0" st]
  obtain ps where p: "hinton_priorities st data ?ds = Inr ps" and lp: "length ps = length data"
    by (auto simp: hinton_priorities_def)
  have ls': "case Some labels of None \<Rightarrow> True | Some l \<Rightarrow> list_all (\<lambda>k. k < length l) ?ds"
    using ls by simp
  from hinton_order_ok [OF lp ds ls'] obtain order where
    o: "hinton_order ps (Some labels) ?ds = Inr order" and so: "set order = set ?ds"
    by blast
  have ok: "list_all (\<lambda>k. k < length data) order"
    using ds so by (simp add: list_all_iff)
  have c: "hinton_cells st data (enumerate 0 order) = Inr []"
    by (rule hinton_cells_empty_rows [OF rows]) (simp add: enumerate_all ok)
  have "list_all (\<lambda>k. k < length data \<and> k < length labels) order"
    using ds ls so by (simp add: list_all_iff)
  then have "list_all (\<lambda>(x, m). m < length data \<and> m < length labels) (enumerate 0 order)"
    by (simp add: enumerate_all)
  from hinton_column_texts_ok [OF this] obtain ts where
    t: "hinton_column_texts data labels (enumerate 0 order) = Inr ts" by blast
  show ?thesis
    using i0 p o c t by (simp add: hinton_def Let_def plt_figure_def)
qed

lemma hinton_no_samples_unlabelled:
  assumes "data \<noteq> []" and "data ! 0 = []"
  shows "hinton st data row_labels None dm = Inl ValueError"
proof -
  have i0: "py_index data 0 = Inr []" using assms by (simp add: py_index_def)
  show ?thesis by (simp add: hinton_def Let_def i0 plt_figure_def)
qed

text \<open>Claim C9, amended. Degenerate inputs are not all harmless in hinton. A cell of
  coverage 0 is encoded without error, both intensities being 0. With no displayed
  mutation, a matrix that has a first row, and either a sample in that row or column
  labels, hinton returns a figure without rectangles and without column texts. With zero
  samples (every row empty), column labels, and displayed mutations that are rows of the
  matrix and have a label, it returns a figure without rectangles, of height 19 units.
  With zero samples and no column labels the figure height is \<open>-1\<close> unit and creating
  the figure raises ValueError, whatever is displayed.\<close>

theorem C9_degenerate_inputs:
  "(data \<noteq> [] \<and> (data ! 0 \<noteq> [] \<or> column_labels \<noteq> None) \<longrightarrow>
      hinton st data row_labels column_labels (Some []) =
        Inr \<lparr>figsize = (real_of_int (if row_labels \<noteq> None then 2 + 20 else 0) / 20,
                        real_of_int (int (length (data ! 0)) * (4 + 1) - 1
                                     + (if column_labels \<noteq> None then 0 + 20 else 0)) / 20),
             patches = [],
             row_texts = (case row_labels of None \<Rightarrow> [] | Some rl \<Rightarrow> hinton_row_texts rl),
             column_texts = []\<rparr>)
   \<and> (data \<noteq> [] \<and> list_all (\<lambda>row. row = []) data
        \<and> list_all (\<lambda>k. k < length data) (displayed_or_all data dm)
        \<and> list_all (\<lambda>k. k < length labels) (displayed_or_all data dm) \<longrightarrow>
        (\<exists>fig. hinton st data row_labels (Some labels) dm = Inr fig \<and> patches fig = []
            \<and> snd (figsize fig) = 19 / 20))
   \<and> (data \<noteq> [] \<and> data ! 0 = [] \<longrightarrow> hinton st data row_labels None dm = Inl ValueError)
   \<and> encode_cell st maf mut_reads 0 =
        Inr \<lparr>maf_value = 0, cov_value = 0, border = class_color st maf\<rparr>"
proof (intro conjI)
  show "data \<noteq> [] \<and> (data ! 0 \<noteq> [] \<or> column_labels \<noteq> None) \<longrightarrow>
      hinton st data row_labels column_labels (Some []) =
        Inr \<lparr>figsize = (real_of_int (if row_labels \<noteq> None then 2 + 20 else 0) / 20,
                        real_of_int (int (length (data ! 0)) * (4 + 1) - 1
                                     + (if column_labels \<noteq> None then 0 + 20 else 0)) / 20),
             patches = [],
             row_texts = (case row_labels of None \<Rightarrow> [] | Some rl \<Rightarrow> hinton_row_texts rl),
             column_texts = []\<rparr>"
    using hinton_nothing_displayed [of data column_labels st row_labels] by blast
  show "data \<noteq> [] \<and> list_all (\<lambda>row. row = []) data
        \<and> list_all (\<lambda>k. k < length data) (displayed_or_all data dm)
        \<and> list_all (\<lambda>k. k < length labels) (displayed_or_all data dm) \<longrightarrow>
        (\<exists>fig. hinton st data row_labels (Some labels) dm = Inr fig \<and> patches fig = []
            \<and> snd (figsize fig) = 19 / 20)"
    using hinton_no_samples_labelled [of data dm labels st row_labels] by blast
  show "data \<noteq> [] \<and> data ! 0 = [] \<longrightarrow> hinton st data row_labels None dm = Inl ValueError"
    using hinton_no_samples_unlabelled [of data st row_labels dm] by blast
  show "encode_cell st maf mut_reads 0 =
        Inr \<lparr>maf_value = 0, cov_value = 0, border = class_color st maf\<rparr>"
    by (simp add: encode_cell_def raw_maf_of_def cov_intensity_def maf_intensity_def)
qed

theorem C9_degenerate_inputs_witness:
  "hinton \<lparr>POS_UNKNOWN = - 2, NEG_UNKNOWN = - 1\<rparr> [[1, 0]] None None (Some []) =
        Inr \<lparr>figsize = (0, 9 / 20), patches = [], row_texts = [], column_texts = []\<rparr>
   \<and> (\<exists>fig. hinton \<lparr>POS_UNKNOWN = - 2, NEG_UNKNOWN = - 1\<rparr> [[], []] None
               (Some [''TP53'', ''KRAS'']) None = Inr fig
          \<and> patches fig = [] \<and> snd (figsize fig) = 19 / 20)
   \<and> hinton \<lparr>POS_UNKNOWN = - 2, NEG_UNKNOWN = - 1\<rparr> [[], []] None None None = Inl ValueError"
proof -
  let ?st = "\<lparr>POS_UNKNOWN = - 2, NEG_UNKNOWN = - 1\<rparr>"
  have a: "hinton ?st [[1, 0]] None None (Some []) =
        Inr \<lparr>figsize = (0, 9 / 20), patches = [], row_texts = [], column_texts = []\<rparr>"
    using C9_degenerate_inputs [where data = "[[1, 0]]" and st = ?st and row_labels = None
        and column_labels = None]
    by simp
  have h: "[[], []] \<noteq> ([] :: real list list) \<and> list_all (\<lambda>row. row = []) [[], [] :: real list]
        \<and> list_all (\<lambda>k. k < length [[], [] :: real list]) (displayed_or_all [[], []] None)
        \<and> list_all (\<lambda>k. k < length [''TP53'', ''KRAS''])
              (displayed_or_all [[], [] :: real list] None)"
    by (simp add: displayed_or_all_def)
  from C9_degenerate_inputs [where data = "[[], []]" and st = ?st and row_labels = None
      and labels = "[''TP53'', ''KRAS'']" and dm = None] h
  have b: "\<exists>fig. hinton ?st [[], []] None (Some [''TP53'', ''KRAS'']) None = Inr fig
      \<and> patches fig = [] \<and> snd (figsize fig) = 19 / 20"
    by blast
  have g: "[[], []] \<noteq> ([] :: real list list) \<and> [[], [] :: real list] ! 0 = []" by simp
  from C9_degenerate_inputs [where data = "[[], []]" and st = ?st and row_labels = None
      and dm = None] g
  have c: "hinton ?st [[], []] None None None = Inl ValueError" by blast
  from a b c show ?thesis by blast
qed

text \<open>An empty mutation matrix has no displayed mutation and no sample, and hinton
  raises IndexError on it, at \<^verbatim>\<open>len(data[0])\<close> of line 49, whether the displayed list is
  left out or given as the empty list. A matrix of rows without samples, drawn without
  column labels, raises ValueError at \<^verbatim>\<open>plt.figure\<close> of line 52, also when nothing is
  displayed.\<close>

theorem C9_counterexample:
  "displayed_or_all [] None = []
   \<and> hinton \<lparr>POS_UNKNOWN = - 2, NEG_UNKNOWN = - 1\<rparr> [] None None None = Inl IndexError
   \<and> hinton \<lparr>POS_UNKNOWN = - 2, NEG_UNKNOWN = - 1\<rparr> [] None None (Some []) = Inl IndexError
   \<and> hinton \<lparr>POS_UNKNOWN = - 2, NEG_UNKNOWN = - 1\<rparr> [[], []] None None None = Inl ValueError
   \<and> hinton \<lparr>POS_UNKNOWN = - 2, NEG_UNKNOWN = - 1\<rparr> [[]] None None (Some []) = Inl ValueError"
  by (simp add: hinton_def displayed_or_all_def py_index_def plt_figure_def)

end
